theory Spec2Isabelle
  imports Complex_Main
begin

section \<open>Machine arithmetic of the growth calculation\<close>

text \<open>
  Byte counts are Go \<open>int64\<close> values. They are modelled as \<open>int\<close> with the two's
  complement wrap-around written out, so that the overflow of \<open>+\<close> and \<open><<\<close> is part of
  the model.
\<close>

definition is_int64 :: "int \<Rightarrow> bool" where
  "is_int64 x \<longleftrightarrow> - (2 ^ 63) \<le> x \<and> x < 2 ^ 63"

definition wrap64 :: "int \<Rightarrow> int" where
  "wrap64 x = (x + 2 ^ 63) mod 2 ^ 64 - 2 ^ 63"

definition add64 :: "int \<Rightarrow> int \<Rightarrow> int" where
  "add64 a b = wrap64 (a + b)"

definition shl64 :: "int \<Rightarrow> nat \<Rightarrow> int" where
  "shl64 x n = wrap64 (x * 2 ^ n)"

definition GiB :: int where
  "GiB = 2 ^ 30"

text \<open>
  \<open>float64(x)\<close> for an \<open>int64\<close> \<open>x\<close>: the nearest value with a 53 bit significand, ties
  to the even significand. Every such value is itself an integer, so the result is kept
  as an \<open>int\<close>; magnitudes up to \<open>2 ^ 53\<close> convert exactly.
\<close>

function bitlen :: "int \<Rightarrow> nat" where
  "bitlen n = (if n \<le> 0 then 0 else Suc (bitlen (n div 2)))"
  by pat_completeness auto
termination
  by (relation "measure nat") auto

declare bitlen.simps [simp del]

definition float64_of_int64 :: "int \<Rightarrow> int" where
  "float64_of_int64 x =
     (let m = \<bar>x\<bar> in
      if m \<le> 2 ^ 53 then x
      else
        let u = 2 ^ (bitlen m - 53);
            q = m div u;
            r = m mod u;
            q' = (if 2 * r < u \<or> (2 * r = u \<and> even q) then q else q + 1)
        in sgn x * (q' * u))"

text \<open>
  \<open>math.Ceil(f / (1 << 30))\<close> for an integer-valued \<open>f\<close>: dividing by a power of two is
  exact in binary floating point, and so is \<open>Ceil\<close>; the result has magnitude at most
  \<open>2 ^ 33\<close>, so the conversion back to \<open>int64\<close> is exact as well.
\<close>

definition ceilGiB :: "int \<Rightarrow> int" where
  "ceilGiB f = - ((- f) div 2 ^ 30)"

text \<open>
  Line 140 of \<open>reconcile\<close>:
  \<^verbatim>\<open>int64(math.Ceil(float64(capacity.Value()+increase)/(1<<30))) << 30\<close>
\<close>

definition newStorageBytes :: "int \<Rightarrow> int \<Rightarrow> int" where
  "newStorageBytes capacity increase =
     shl64 (ceilGiB (float64_of_int64 (add64 capacity increase))) 30"

section \<open>Errors and the decimal conversions of \<open>strconv\<close>\<close>

datatype error =
    Err string  \<comment> \<open>an error value of a collaborator, with its message\<close>
  | NumError string  \<comment> \<open>\<open>strconv.ParseInt\<close> rejected the string (syntax or range)\<close>
  | Errorf string error  \<comment> \<open>\<open>fmt.Errorf("...: %w", err)\<close>\<close>

definition digitVal :: "char \<Rightarrow> int option" where
  "digitVal c =
     (let n = (of_char c :: nat) in if 48 \<le> n \<and> n \<le> 57 then Some (int n - 48) else None)"

fun parseDigits :: "int \<Rightarrow> string \<Rightarrow> int option" where
  "parseDigits acc [] = Some acc"
| "parseDigits acc (c # cs) =
     (case digitVal c of None \<Rightarrow> None | Some d \<Rightarrow> parseDigits (acc * 10 + d) cs)"

text \<open>
  \<open>strconv.ParseInt(s, 10, 64)\<close>: an optional sign, then one or more decimal digits; the
  value must fit \<open>int64\<close>. The two kinds of failure (syntax, range) are not told apart:
  \<open>reconcile\<close> only logs the error.
\<close>

definition ParseInt :: "string \<Rightarrow> error + int" where
  "ParseInt s =
     (case s of
        [] \<Rightarrow> Inl (NumError s)
      | c # cs \<Rightarrow>
          let neg = (c = CHR ''-'');
              ds = (if c = CHR ''+'' \<or> c = CHR ''-'' then cs else s)
          in if ds = [] then Inl (NumError s)
             else (case parseDigits 0 ds of
                     None \<Rightarrow> Inl (NumError s)
                   | Some un \<Rightarrow>
                       let v = (if neg then - un else un)
                       in if is_int64 v then Inr v else Inl (NumError s)))"

definition digitChar :: "int \<Rightarrow> char" where
  "digitChar d = char_of (48 + nat d)"

function showDigits :: "int \<Rightarrow> string" where
  "showDigits n = (if n < 10 then [digitChar n] else showDigits (n div 10) @ [digitChar (n mod 10)])"
  by pat_completeness auto
termination
  by (relation "measure nat") auto

declare showDigits.simps [simp del]

text \<open>\<open>strconv.FormatInt(i, 10)\<close>\<close>

definition FormatInt :: "int \<Rightarrow> string" where
  "FormatInt i = (if i < 0 then CHR ''-'' # showDigits (- i) else showDigits i)"

section \<open>Data model\<close>

text \<open>
  A \<open>resource.Quantity\<close> is an exact decimal number, which need not be whole; it is
  modelled by its value, a rational. \<open>Cmp\<close> compares the exact values. \<open>Value()\<close> is the
  value rounded to a whole number, away from zero. \<open>resource.NewQuantity(v, BinarySI)\<close> is
  the quantity of the whole number \<open>v\<close>.
\<close>

type_synonym quantity = rat

definition Value :: "quantity \<Rightarrow> int" where
  "Value q = (if 0 \<le> q then \<lceil>q\<rceil> else \<lfloor>q\<rfloor>)"

definition Cmp :: "quantity \<Rightarrow> quantity \<Rightarrow> int" where
  "Cmp q y = (if q < y then - 1 else if q = y then 0 else 1)"

definition NewQuantity :: "int \<Rightarrow> quantity" where
  "NewQuantity v = of_int v"

text \<open>
  Of a \<open>PersistentVolumeClaim\<close> the record keeps the fields that \<open>reconcile\<close> reads or
  writes. A Go map that may be \<open>nil\<close> is an \<open>option\<close>: reading a \<open>nil\<close> map gives the zero
  value, writing to it panics. \<open>Spec.StorageClassName\<close> is a \<open>*string\<close>, \<open>None\<close> when
  \<open>nil\<close>.
\<close>

type_synonym resourceName = string

definition ResourceStorage :: resourceName where
  "ResourceStorage = ''storage''"

record pvc =
  Namespace :: string
  Name :: string
  StorageClassName :: "string option"
  Requests :: "(resourceName \<rightharpoonup> quantity) option"
  Annotations :: "(string \<rightharpoonup> string) option"
  Capacity :: "resourceName \<rightharpoonup> quantity"

type_synonym namespacedName = "string \<times> string"

record pvcMetrics =
  VolumeUsedBytes :: int
  VolumeCapacityBytes :: int

text \<open>
  Modelled from the spec: the declarations of the annotation keys and of the two default
  policy values are not part of the available source. Section 6 of the specification
  names the keys \<open>threshold\<close>, \<open>increase\<close>, \<open>ceiling\<close> and \<open>previous_capacity\<close> and gives
  the defaults 80% and 20%.
\<close>

definition PVCAutoscalerThresholdAnnotation :: string where
  "PVCAutoscalerThresholdAnnotation = ''threshold''"

definition PVCAutoscalerIncreaseAnnotation :: string where
  "PVCAutoscalerIncreaseAnnotation = ''increase''"

definition PVCAutoscalerCeilingAnnotation :: string where
  "PVCAutoscalerCeilingAnnotation = ''ceiling''"

definition PVCAutoscalerPreviousCapacityAnnotation :: string where
  "PVCAutoscalerPreviousCapacityAnnotation = ''previous_capacity''"

definition DefaultThreshold :: string where
  "DefaultThreshold = ''80%''"

definition DefaultIncrease :: string where
  "DefaultIncrease = ''20%''"

text \<open>\<open>v, ok := m[k]\<close> and \<open>m[k]\<close> on a map of strings that may be \<open>nil\<close>.\<close>

definition lookupAnnotation :: "pvc \<Rightarrow> string \<Rightarrow> string option" where
  "lookupAnnotation p k = (case Annotations p of None \<Rightarrow> None | Some m \<Rightarrow> m k)"

definition annotation :: "pvc \<Rightarrow> string \<Rightarrow> string" where
  "annotation p k = (case lookupAnnotation p k of None \<Rightarrow> [] | Some v \<Rightarrow> v)"

text \<open>
  The collaborators of \<open>reconcile\<close>. Their code is not part of the available source, so
  each is a parameter: the listing and the metrics fetch by their results, the others as
  functions of their arguments. \<open>Update\<close> is the API call that persists a claim.
\<close>

record autoscaler =
  getAnnotatedPVCs :: "error + pvc list"
  FetchPVCsMetrics :: "error + (namespacedName \<rightharpoonup> pvcMetrics)"
  isStorageClassExpandable :: "string \<Rightarrow> error + bool"
  isPVCResizable :: "pvc \<Rightarrow> error option"
  convertPercentageToBytes :: "string \<Rightarrow> int \<Rightarrow> string \<Rightarrow> error + int"
  getPVCStorageCeiling :: "pvc \<Rightarrow> error + quantity"
  Update :: "pvc \<Rightarrow> error option"

section \<open>The reconcile operation\<close>

datatype panic =
    NilPointerDereference  \<comment> \<open>line 36, \<open>*pvc.Spec.StorageClassName\<close>\<close>
  | NilMapWrite  \<comment> \<open>lines 168 and 170, assignment to an entry of a \<open>nil\<close> map\<close>

text \<open>
  \<open>updatePVCWithNewStorageSize\<close> (lines 165 to 180): the claim as handed to \<open>Update\<close>, with
  the error that \<open>Update\<close> returned, or the panic of a write to a \<open>nil\<close> map.
\<close>

definition updatePVCWithNewStorageSize ::
  "autoscaler \<Rightarrow> pvc \<Rightarrow> int \<Rightarrow> quantity \<Rightarrow> panic + (pvc \<times> error option)" where
  "updatePVCWithNewStorageSize a pvcToResize capacityBytes newStorage =
     (case Requests pvcToResize of
        None \<Rightarrow> Inl NilMapWrite
      | Some requests \<Rightarrow>
          (case Annotations pvcToResize of
             None \<Rightarrow> Inl NilMapWrite
           | Some annotations \<Rightarrow>
               let written = pvcToResize
                     \<lparr> Requests := Some (requests(ResourceStorage \<mapsto> newStorage)),
                       Annotations := Some (annotations
                         (PVCAutoscalerPreviousCapacityAnnotation \<mapsto> FormatInt capacityBytes)) \<rparr>
               in Inr (written,
                       (case Update a written of
                          None \<Rightarrow> None
                        | Some err \<Rightarrow> Some (Errorf ''failed to update PVC'' err)))))"

text \<open>
  What one iteration of the loop of \<open>reconcile\<close> does with a claim. Every \<open>continue\<close> is a
  reason, named after the message the branch logs; \<open>BelowThreshold\<close> is the iteration that
  falls through the last \<open>if\<close> without a log line. The log itself is not part of the
  model: no decision depends on it.
\<close>

datatype skip =
    StorageClassLookupFailed error  \<comment> \<open>"failed getting StorageClass"\<close>
  | NotExpandable  \<comment> \<open>"the StorageClass does not allow volume expansion"\<close>
  | NotResizable error  \<comment> \<open>"the PersistentVolumeClaim ... is not resizable"\<close>
  | NoMetrics  \<comment> \<open>"could not fetch the metrics for pvc"\<close>
  | BadThreshold error  \<comment> \<open>"failed to convert threshold annotation"\<close>
  | CapacityNotSet  \<comment> \<open>"skip pvc because its capacity is not set yet"\<close>
  | CapacityZero  \<comment> \<open>"skip pvc because its capacity is zero"\<close>
  | BadIncrease error  \<comment> \<open>"failed to convert increase annotation"\<close>
  | BadPreviousCapacity error  \<comment> \<open>"failed to parse 'previous_capacity' annotation"\<close>
  | Pending  \<comment> \<open>"pvc is still waiting to accept the resize"\<close>
  | BadCeiling error  \<comment> \<open>"failed to fetch storage ceiling"\<close>
  | CeilingReached  \<comment> \<open>"volume storage limit reached"\<close>
  | BelowThreshold

datatype outcome =
    Skipped skip
  | Resized quantity pvc "error option"
      \<comment> \<open>the new storage size, the claim handed to \<open>Update\<close>, the error of the update\<close>
  | Panicked panic

text \<open>Lines 135 to 159: the trigger, the rounding, the clamp and the update.\<close>

definition grow ::
  "autoscaler \<Rightarrow> pvc \<Rightarrow> pvcMetrics \<Rightarrow> int \<Rightarrow> quantity \<Rightarrow> int \<Rightarrow> quantity \<Rightarrow> outcome" where
  "grow a p m threshold capacity increase ceiling' =
     (let currentUsedBytes = VolumeUsedBytes m in
      if currentUsedBytes \<ge> threshold then
        let rounded = NewQuantity (newStorageBytes (Value capacity) increase);
            newStorage = (if Cmp rounded ceiling' > 0 then ceiling' else rounded)
        in (case updatePVCWithNewStorageSize a p (VolumeCapacityBytes m) newStorage of
              Inl pn \<Rightarrow> Panicked pn
            | Inr (written, err) \<Rightarrow> Resized newStorage written err)
      else Skipped BelowThreshold)"

text \<open>Lines 106 to 133: the previous capacity marker and the ceiling.\<close>

definition guard ::
  "autoscaler \<Rightarrow> pvc \<Rightarrow> pvcMetrics \<Rightarrow> int \<Rightarrow> quantity \<Rightarrow> int \<Rightarrow> outcome" where
  "guard a p m threshold capacity increase =
     (let marker =
        (case lookupAnnotation p PVCAutoscalerPreviousCapacityAnnotation of
           None \<Rightarrow> None
         | Some previousCapacity \<Rightarrow>
             (case ParseInt previousCapacity of
                Inl err \<Rightarrow> Some (BadPreviousCapacity err)
              | Inr parsedPreviousCapacity \<Rightarrow>
                  if parsedPreviousCapacity = VolumeCapacityBytes m then Some Pending else None))
      in case marker of
           Some reason \<Rightarrow> Skipped reason
         | None \<Rightarrow>
             (case getPVCStorageCeiling a p of
                Inl err \<Rightarrow> Skipped (BadCeiling err)
              | Inr ceiling' \<Rightarrow>
                  if Cmp capacity ceiling' \<ge> 0 then Skipped CeilingReached
                  else grow a p m threshold capacity increase ceiling'))"

text \<open>Lines 32 to 159: the body of the loop, for one claim of the list.\<close>

definition reconcilePVC ::
  "autoscaler \<Rightarrow> (namespacedName \<rightharpoonup> pvcMetrics) \<Rightarrow> pvc \<Rightarrow> outcome" where
  "reconcilePVC a pvcsMetrics p =
     (case StorageClassName p of
        None \<Rightarrow> Panicked NilPointerDereference
      | Some storageClassName \<Rightarrow>
     (case isStorageClassExpandable a storageClassName of
        Inl err \<Rightarrow> Skipped (StorageClassLookupFailed err)
      | Inr isExpandable \<Rightarrow>
     if \<not> isExpandable then Skipped NotExpandable
     else
     (case isPVCResizable a p of
        Some err \<Rightarrow> Skipped (NotResizable err)
      | None \<Rightarrow>
     (case pvcsMetrics (Namespace p, Name p) of
        None \<Rightarrow> Skipped NoMetrics
      | Some m \<Rightarrow>
     let pvcCurrentCapacityBytes = VolumeCapacityBytes m in
     (case convertPercentageToBytes a (annotation p PVCAutoscalerThresholdAnnotation)
             pvcCurrentCapacityBytes DefaultThreshold of
        Inl err \<Rightarrow> Skipped (BadThreshold err)
      | Inr threshold \<Rightarrow>
     (case Capacity p ResourceStorage of
        None \<Rightarrow> Skipped CapacityNotSet
      | Some capacity \<Rightarrow>
     if Value capacity = 0 then Skipped CapacityZero
     else
     (case convertPercentageToBytes a (annotation p PVCAutoscalerIncreaseAnnotation)
             (Value capacity) DefaultIncrease of
        Inl err \<Rightarrow> Skipped (BadIncrease err)
      | Inr increase \<Rightarrow> guard a p m threshold capacity increase)))))))"

text \<open>
  The loop over \<open>pvcl.Items\<close> (line 31). A panic ends the loop and the goroutine with it:
  the claims after it are not visited.
\<close>

fun reconcileItems ::
  "autoscaler \<Rightarrow> (namespacedName \<rightharpoonup> pvcMetrics) \<Rightarrow> pvc list \<Rightarrow> outcome list" where
  "reconcileItems a pvcsMetrics [] = []"
| "reconcileItems a pvcsMetrics (p # ps) =
     (case reconcilePVC a pvcsMetrics p of
        Panicked pn \<Rightarrow> [Panicked pn]
      | out \<Rightarrow> out # reconcileItems a pvcsMetrics ps)"

text \<open>
  \<open>reconcile\<close> (lines 17 to 163): what it returns to its caller and the outcomes of the
  claims it visited, in order.
\<close>

datatype returned =
    ReturnNil  \<comment> \<open>\<open>return nil\<close>\<close>
  | ReturnError error  \<comment> \<open>\<open>return fmt.Errorf(...)\<close>\<close>
  | NoReturn  \<comment> \<open>a panic unwound the call\<close>

definition reconcile :: "autoscaler \<Rightarrow> returned \<times> outcome list" where
  "reconcile a =
     (case getAnnotatedPVCs a of
        Inl err \<Rightarrow> (ReturnError (Errorf ''could not get PersistentVolumeClaims'' err), [])
      | Inr pvcl \<Rightarrow>
          (case FetchPVCsMetrics a of
             Inl err \<Rightarrow> (ReturnNil, [])
           | Inr pvcsMetrics \<Rightarrow>
               let outs = reconcileItems a pvcsMetrics pvcl
               in if outs \<noteq> [] \<and> (case last outs of Panicked _ \<Rightarrow> True | _ \<Rightarrow> False)
                  then (NoReturn, outs)
                  else (ReturnNil, outs)))"

section \<open>A cluster to run the operation on\<close>

text \<open>
  Modelled from the spec: the helper that converts a threshold or increase annotation is
  not part of the available source. Section 4.1 of the specification: the value is a
  percentage string such as "80%", taken of the reference value as
  \<open>percentage * reference / 100\<close>, or an absolute quantity string; an absent value is
  replaced by the default; a value that does not parse, a percentage outside
  \<open>0 < p \<le> 100\<close> or a quantity that is not positive is an error. Of the quantity strings
  the model reads whole numbers with an optional binary suffix.
\<close>

definition suffixMultiplier :: "string \<Rightarrow> int option" where
  "suffixMultiplier s =
     (if s = [] then Some 1
      else if s = ''Ki'' then Some (2 ^ 10)
      else if s = ''Mi'' then Some (2 ^ 20)
      else if s = ''Gi'' then Some (2 ^ 30)
      else if s = ''Ti'' then Some (2 ^ 40)
      else if s = ''Pi'' then Some (2 ^ 50)
      else if s = ''Ei'' then Some (2 ^ 60)
      else None)"

definition parseQuantity :: "string \<Rightarrow> error + quantity" where
  "parseQuantity s =
     (let ds = takeWhile (\<lambda>c. digitVal c \<noteq> None) s;
          sfx = dropWhile (\<lambda>c. digitVal c \<noteq> None) s
      in if ds = [] then Inl (Err ''quantity without digits'')
         else (case (parseDigits 0 ds, suffixMultiplier sfx) of
                 (Some n, Some k) \<Rightarrow>
                   if is_int64 (n * k) then Inr (NewQuantity (n * k))
                   else Inl (Err ''quantity out of range'')
               | _ \<Rightarrow> Inl (Err ''unknown quantity suffix'')))"

definition percentageToBytes :: "string \<Rightarrow> int \<Rightarrow> string \<Rightarrow> error + int" where
  "percentageToBytes value reference defaultValue =
     (let v = (if value = [] then defaultValue else value) in
      if v \<noteq> [] \<and> last v = CHR ''%'' then
        (case ParseInt (butlast v) of
           Inl err \<Rightarrow> Inl err
         | Inr p \<Rightarrow>
             if 0 < p \<and> p \<le> 100 then Inr (p * reference div 100)
             else Inl (Err ''percentage out of range''))
      else
        (case parseQuantity v of
           Inl err \<Rightarrow> Inl err
         | Inr q \<Rightarrow> if 0 < q then Inr (Value q) else Inl (Err ''quantity not positive'')))"

text \<open>
  Modelled from the spec: the helper that fetches the ceiling of a claim is not part of
  the available source. Section 4.1: the ceiling annotation, if present, is an absolute
  quantity string; if absent there is no ceiling, which is the largest quantity an
  \<open>int64\<close> holds.
\<close>

definition storageCeiling :: "pvc \<Rightarrow> error + quantity" where
  "storageCeiling p =
     (case lookupAnnotation p PVCAutoscalerCeilingAnnotation of
        None \<Rightarrow> Inr (NewQuantity (2 ^ 63 - 1))
      | Some s \<Rightarrow> parseQuantity s)"

text \<open>
  A cluster with the storage classes \<open>standard\<close> (expandable) and \<open>local\<close> (not
  expandable), in which every claim is in a resizable condition and every update
  succeeds.
\<close>

definition cluster :: "pvc list \<Rightarrow> (error + (namespacedName \<rightharpoonup> pvcMetrics)) \<Rightarrow> autoscaler" where
  "cluster items fetched =
     \<lparr> getAnnotatedPVCs = Inr items,
       FetchPVCsMetrics = fetched,
       isStorageClassExpandable =
         (\<lambda>name. if name = ''standard'' then Inr True
                 else if name = ''local'' then Inr False
                 else Inl (Err ''storage class not found'')),
       isPVCResizable = (\<lambda>p. None),
       convertPercentageToBytes = percentageToBytes,
       getPVCStorageCeiling = storageCeiling,
       Update = (\<lambda>p. None) \<rparr>"

text \<open>
  A claim \<open>default/data\<close> of the given storage class, status capacity (a whole number of
  bytes) and annotations; its storage request equals its capacity.
\<close>

definition claim :: "string option \<Rightarrow> int \<Rightarrow> (string \<times> string) list \<Rightarrow> pvc" where
  "claim sc bytes anns =
     \<lparr> Namespace = ''default'',
       Name = ''data'',
       StorageClassName = sc,
       Requests = Some [ResourceStorage \<mapsto> NewQuantity bytes],
       Annotations = Some (map_of anns),
       Capacity = [ResourceStorage \<mapsto> NewQuantity bytes] \<rparr>"

text \<open>
  The autoscaler whose API server accepts exactly the writes that satisfy \<open>ok\<close> and
  answers every other \<open>Update\<close> with an error.
\<close>

definition admitting :: "(pvc \<Rightarrow> bool) \<Rightarrow> autoscaler \<Rightarrow> autoscaler" where
  "admitting ok a = a \<lparr> Update := (\<lambda>w. if ok w then None else Some (Err ''rejected'')) \<rparr>"

text \<open>The metrics of a cycle that reports the claim \<open>default/data\<close> alone.\<close>

definition metricsOf :: "int \<Rightarrow> int \<Rightarrow> (namespacedName \<rightharpoonup> pvcMetrics)" where
  "metricsOf used capacity =
     [(''default'', ''data'') \<mapsto> \<lparr> VolumeUsedBytes = used, VolumeCapacityBytes = capacity \<rparr>]"

section \<open>Reading an outcome, and the checks of the loop one by one\<close>

text \<open>The resize an iteration issues: the new size and the claim handed to \<open>Update\<close>.\<close>

definition issued :: "outcome \<Rightarrow> (quantity \<times> pvc) option" where
  "issued out = (case out of Resized newStorage written err \<Rightarrow> Some (newStorage, written) | _ \<Rightarrow> None)"

text \<open>
  Each check of the loop body, standing alone: \<open>Some\<close> outcome when the check ends the
  iteration, \<open>None\<close> when the iteration goes on. A check whose inputs an earlier check
  would have refused lets the claim pass.
\<close>

type_synonym stage = "autoscaler \<Rightarrow> (namespacedName \<rightharpoonup> pvcMetrics) \<Rightarrow> pvc \<Rightarrow> outcome option"

definition stageStorageClassName :: stage where  \<comment> \<open>line 36\<close>
  "stageStorageClassName a ms p =
     (case StorageClassName p of None \<Rightarrow> Some (Panicked NilPointerDereference) | Some sc \<Rightarrow> None)"

definition stageExpandable :: stage where  \<comment> \<open>lines 37 to 52\<close>
  "stageExpandable a ms p =
     (case StorageClassName p of
        None \<Rightarrow> None
      | Some sc \<Rightarrow>
          (case isStorageClassExpandable a sc of
             Inl err \<Rightarrow> Some (Skipped (StorageClassLookupFailed err))
           | Inr isExpandable \<Rightarrow> if isExpandable then None else Some (Skipped NotExpandable)))"

definition stageResizable :: stage where  \<comment> \<open>lines 56 to 63\<close>
  "stageResizable a ms p =
     (case isPVCResizable a p of Some err \<Rightarrow> Some (Skipped (NotResizable err)) | None \<Rightarrow> None)"

definition stageMetrics :: stage where  \<comment> \<open>lines 70 to 73\<close>
  "stageMetrics a ms p =
     (case ms (Namespace p, Name p) of None \<Rightarrow> Some (Skipped NoMetrics) | Some m \<Rightarrow> None)"

definition stageThreshold :: stage where  \<comment> \<open>lines 76 to 85\<close>
  "stageThreshold a ms p =
     (case ms (Namespace p, Name p) of
        None \<Rightarrow> None
      | Some m \<Rightarrow>
          (case convertPercentageToBytes a (annotation p PVCAutoscalerThresholdAnnotation)
                  (VolumeCapacityBytes m) DefaultThreshold of
             Inl err \<Rightarrow> Some (Skipped (BadThreshold err))
           | Inr threshold \<Rightarrow> None))"

definition stageCapacity :: stage where  \<comment> \<open>lines 87 to 95\<close>
  "stageCapacity a ms p =
     (case Capacity p ResourceStorage of
        None \<Rightarrow> Some (Skipped CapacityNotSet)
      | Some capacity \<Rightarrow> if Value capacity = 0 then Some (Skipped CapacityZero) else None)"

definition stageIncrease :: stage where  \<comment> \<open>lines 97 to 104\<close>
  "stageIncrease a ms p =
     (case Capacity p ResourceStorage of
        None \<Rightarrow> None
      | Some capacity \<Rightarrow>
          (case convertPercentageToBytes a (annotation p PVCAutoscalerIncreaseAnnotation)
                  (Value capacity) DefaultIncrease of
             Inl err \<Rightarrow> Some (Skipped (BadIncrease err))
           | Inr increase \<Rightarrow> None))"

definition stageMarker :: stage where  \<comment> \<open>lines 106 to 112\<close>
  "stageMarker a ms p =
     (case lookupAnnotation p PVCAutoscalerPreviousCapacityAnnotation of
        None \<Rightarrow> None
      | Some previousCapacity \<Rightarrow>
          (case ParseInt previousCapacity of
             Inl err \<Rightarrow> Some (Skipped (BadPreviousCapacity err))
           | Inr parsedPreviousCapacity \<Rightarrow> None))"

definition stagePending :: stage where  \<comment> \<open>lines 113 to 116\<close>
  "stagePending a ms p =
     (case (lookupAnnotation p PVCAutoscalerPreviousCapacityAnnotation, ms (Namespace p, Name p)) of
        (Some previousCapacity, Some m) \<Rightarrow>
          (case ParseInt previousCapacity of
             Inl err \<Rightarrow> None
           | Inr parsedPreviousCapacity \<Rightarrow>
               if parsedPreviousCapacity = VolumeCapacityBytes m then Some (Skipped Pending)
               else None)
      | _ \<Rightarrow> None)"

definition stageCeiling :: stage where  \<comment> \<open>lines 119 to 126\<close>
  "stageCeiling a ms p =
     (case getPVCStorageCeiling a p of
        Inl err \<Rightarrow> Some (Skipped (BadCeiling err))
      | Inr ceiling' \<Rightarrow> None)"

definition stageCeilingReached :: stage where  \<comment> \<open>lines 127 to 133\<close>
  "stageCeilingReached a ms p =
     (case (getPVCStorageCeiling a p, Capacity p ResourceStorage) of
        (Inr ceiling', Some capacity) \<Rightarrow>
          if Cmp capacity ceiling' \<ge> 0 then Some (Skipped CeilingReached) else None
      | _ \<Rightarrow> None)"

text \<open>Lines 135 to 159, for a claim that every check let pass.\<close>

definition stageGrowth :: "autoscaler \<Rightarrow> (namespacedName \<rightharpoonup> pvcMetrics) \<Rightarrow> pvc \<Rightarrow> outcome" where
  "stageGrowth a ms p =
     (case ms (Namespace p, Name p) of
        None \<Rightarrow> Skipped NoMetrics
      | Some m \<Rightarrow>
     (case convertPercentageToBytes a (annotation p PVCAutoscalerThresholdAnnotation)
             (VolumeCapacityBytes m) DefaultThreshold of
        Inl err \<Rightarrow> Skipped (BadThreshold err)
      | Inr threshold \<Rightarrow>
     (case Capacity p ResourceStorage of
        None \<Rightarrow> Skipped CapacityNotSet
      | Some capacity \<Rightarrow>
     (case convertPercentageToBytes a (annotation p PVCAutoscalerIncreaseAnnotation)
             (Value capacity) DefaultIncrease of
        Inl err \<Rightarrow> Skipped (BadIncrease err)
      | Inr increase \<Rightarrow>
     (case getPVCStorageCeiling a p of
        Inl err \<Rightarrow> Skipped (BadCeiling err)
      | Inr ceiling' \<Rightarrow> grow a p m threshold capacity increase ceiling')))))"

text \<open>Checks run in a given order; the first that ends the iteration decides.\<close>

fun runStages :: "stage list \<Rightarrow> autoscaler \<Rightarrow> (namespacedName \<rightharpoonup> pvcMetrics) \<Rightarrow> pvc \<Rightarrow> outcome" where
  "runStages [] a ms p = stageGrowth a ms p"
| "runStages (s # ss) a ms p = (case s a ms p of Some out \<Rightarrow> out | None \<Rightarrow> runStages ss a ms p)"

text \<open>Every check of a list lets the claim pass.\<close>

definition passes :: "stage list \<Rightarrow> autoscaler \<Rightarrow> (namespacedName \<rightharpoonup> pvcMetrics) \<Rightarrow> pvc \<Rightarrow> bool" where
  "passes ss a ms p = list_all (\<lambda>s. s a ms p = None) ss"

text \<open>The order of the checks in the loop body.\<close>

definition implementedOrder :: "stage list" where
  "implementedOrder =
     [stageStorageClassName, stageExpandable, stageResizable, stageMetrics, stageThreshold,
      stageCapacity, stageIncrease, stageMarker, stagePending, stageCeiling,
      stageCeilingReached]"

text \<open>
  The order in the words of the specification (section 4.5 and section 5): all policy
  parsing first, then eligibility, then the oscillation guard, then growth.
\<close>

definition specifiedOrder :: "stage list" where
  "specifiedOrder =
     [stageThreshold, stageIncrease, stageMarker, stageCeiling,
      stageStorageClassName, stageExpandable, stageResizable, stageMetrics, stageCapacity,
      stagePending,
      stageCeilingReached]"

text \<open>
  The autoscaler whose conversions all take their percentage of the one reference \<open>r\<close>,
  whatever reference the call hands over: the reading under which threshold and increase
  share a reference value.
\<close>

definition withReference :: "int \<Rightarrow> autoscaler \<Rightarrow> autoscaler" where
  "withReference r a =
     a \<lparr> convertPercentageToBytes :=
           (\<lambda>value reference defaultValue. convertPercentageToBytes a value r defaultValue) \<rparr>"

section \<open>Rounding\<close>

lemma wrap64_id: "is_int64 x \<Longrightarrow> wrap64 x = x"
  by (simp add: wrap64_def is_int64_def)

lemma GiB_dvd_wrap64: "GiB dvd wrap64 (x * 2 ^ 30)"
proof -
  have a: "GiB dvd x * 2 ^ 30 + 2 ^ 63"
    by (simp add: GiB_def)
  have b: "GiB dvd (2 ^ 64 :: int)"
    by (simp add: GiB_def)
  have c: "GiB dvd (2 ^ 63 :: int)"
    by (simp add: GiB_def)
  from a b have "GiB dvd (x * 2 ^ 30 + 2 ^ 63) mod 2 ^ 64"
    by (rule dvd_mod)
  from this c show ?thesis
    unfolding wrap64_def by (rule dvd_diff)
qed

lemma float64_exact: "\<bar>x\<bar> \<le> 2 ^ 53 \<Longrightarrow> float64_of_int64 x = x"
  by (simp add: float64_of_int64_def)

lemma ceilGiB_bounds: "f \<le> ceilGiB f * GiB \<and> ceilGiB f * GiB < f + GiB"
proof -
  have d: "(0::int) < GiB" by (simp add: GiB_def)
  have e: "(- f) div GiB * GiB + (- f) mod GiB = - f"
    by (rule div_mult_mod_eq)
  have lo: "0 \<le> (- f) mod GiB" using d by (rule pos_mod_sign)
  have hi: "(- f) mod GiB < GiB" using d by (rule pos_mod_bound)
  have "ceilGiB f * GiB = - ((- f) div GiB * GiB)"
    by (simp add: ceilGiB_def GiB_def)
  with e lo hi show ?thesis by linarith
qed

lemma newStorageBytes_exact:
  assumes "\<bar>c + i\<bar> \<le> 2 ^ 53"
  shows "newStorageBytes c i = ceilGiB (c + i) * GiB"
proof -
  have r: "is_int64 (c + i)" using assms by (simp add: is_int64_def abs_le_iff)
  have b: "c + i \<le> ceilGiB (c + i) * GiB \<and> ceilGiB (c + i) * GiB < c + i + GiB"
    by (rule ceilGiB_bounds)
  have "is_int64 (ceilGiB (c + i) * GiB)"
    using assms b by (simp add: is_int64_def GiB_def abs_le_iff)
  then have "shl64 (ceilGiB (c + i)) 30 = ceilGiB (c + i) * GiB"
    by (simp add: shl64_def wrap64_id GiB_def)
  then show ?thesis
    using assms r by (simp add: newStorageBytes_def add64_def wrap64_id float64_exact)
qed

lemma ceilGiB_least:
  assumes "f \<le> k * GiB"
  shows "ceilGiB f * GiB \<le> k * GiB"
proof -
  have d: "(0::int) < GiB" by (simp add: GiB_def)
  have "ceilGiB f * GiB < f + GiB" using ceilGiB_bounds by blast
  with assms have "ceilGiB f * GiB < (k + 1) * GiB"
    by (simp add: algebra_simps)
  with d have "ceilGiB f < k + 1"
    by (simp add: mult_less_cancel_right)
  then have "ceilGiB f \<le> k" by simp
  with d show ?thesis by (simp add: mult_right_mono)
qed

text \<open>
  Where \<open>float64\<close> holds the raw target exactly, that is for magnitudes of at most
  \<open>2 ^ 53\<close> bytes, line 140 rounds up to the next multiple of 1 GiB. For every input the
  result is a multiple of 1 GiB.
\<close>

lemma newStorageBytes_rounds_up:
  "GiB dvd newStorageBytes capacity increase \<and>
   (\<bar>capacity + increase\<bar> \<le> 2 ^ 53 \<longrightarrow>
      capacity + increase \<le> newStorageBytes capacity increase \<and>
      (\<forall>k. capacity + increase \<le> k * GiB \<longrightarrow> newStorageBytes capacity increase \<le> k * GiB))"
proof (intro conjI impI allI)
  show "GiB dvd newStorageBytes capacity increase"
    unfolding newStorageBytes_def shl64_def by (rule GiB_dvd_wrap64)
next
  assume "\<bar>capacity + increase\<bar> \<le> 2 ^ 53"
  then show "capacity + increase \<le> newStorageBytes capacity increase"
    using ceilGiB_bounds [of "capacity + increase"] by (simp add: newStorageBytes_exact)
next
  fix k
  assume "\<bar>capacity + increase\<bar> \<le> 2 ^ 53" and "capacity + increase \<le> k * GiB"
  then show "newStorageBytes capacity increase \<le> k * GiB"
    by (simp add: newStorageBytes_exact ceilGiB_least)
qed

section \<open>The loop body as a sequence of checks\<close>

lemmas stage_defs =
  stageStorageClassName_def stageExpandable_def stageResizable_def stageMetrics_def
  stageThreshold_def stageCapacity_def stageIncrease_def stageMarker_def stagePending_def
  stageCeiling_def stageCeilingReached_def

lemma guard_runStages:
  assumes "ms (Namespace p, Name p) = Some m"
    and "convertPercentageToBytes a (annotation p PVCAutoscalerThresholdAnnotation)
           (VolumeCapacityBytes m) DefaultThreshold = Inr threshold"
    and "Capacity p ResourceStorage = Some capacity"
    and "convertPercentageToBytes a (annotation p PVCAutoscalerIncreaseAnnotation)
           (Value capacity) DefaultIncrease = Inr increase"
  shows "guard a p m threshold capacity increase =
         runStages [stageMarker, stagePending, stageCeiling, stageCeilingReached] a ms p"
proof (cases "lookupAnnotation p PVCAutoscalerPreviousCapacityAnnotation")
  case None
  show ?thesis
  proof (cases "getPVCStorageCeiling a p")
    case (Inl err)
    with None assms show ?thesis
      by (simp add: guard_def stage_defs)
  next
    case (Inr ceiling')
    with None assms show ?thesis
      by (simp add: guard_def stage_defs stageGrowth_def)
  qed
next
  case (Some previousCapacity)
  show ?thesis
  proof (cases "ParseInt previousCapacity")
    case (Inl err)
    with Some assms show ?thesis
      by (simp add: guard_def stage_defs)
  next
    case parsed: (Inr parsedPreviousCapacity)
    show ?thesis
    proof (cases "getPVCStorageCeiling a p")
      case (Inl err)
      with Some parsed assms show ?thesis
        by (simp add: guard_def stage_defs)
    next
      case (Inr ceiling')
      with Some parsed assms show ?thesis
        by (simp add: guard_def stage_defs stageGrowth_def)
    qed
  qed
qed

lemma reconcilePVC_runStages: "reconcilePVC a ms p = runStages implementedOrder a ms p"
proof (cases "StorageClassName p")
  case None
  then show ?thesis
    by (simp add: reconcilePVC_def implementedOrder_def stage_defs)
next
  case sc: (Some storageClassName)
  show ?thesis
  proof (cases "isStorageClassExpandable a storageClassName")
    case (Inl err)
    with sc show ?thesis
      by (simp add: reconcilePVC_def implementedOrder_def stage_defs)
  next
    case ex: (Inr isExpandable)
    show ?thesis
    proof (cases "isExpandable \<and> isPVCResizable a p = None")
      case False
      with sc ex show ?thesis
        by (auto simp: reconcilePVC_def implementedOrder_def stage_defs)
    next
      case rs: True
      show ?thesis
      proof (cases "ms (Namespace p, Name p)")
        case None
        with sc ex rs show ?thesis
          by (simp add: reconcilePVC_def implementedOrder_def stage_defs)
      next
        case m: (Some m)
        show ?thesis
        proof (cases "convertPercentageToBytes a (annotation p PVCAutoscalerThresholdAnnotation)
                        (VolumeCapacityBytes m) DefaultThreshold")
          case (Inl err)
          with sc ex rs m show ?thesis
            by (simp add: reconcilePVC_def implementedOrder_def stage_defs)
        next
          case th: (Inr threshold)
          show ?thesis
          proof (cases "Capacity p ResourceStorage")
            case None
            with sc ex rs m th show ?thesis
              by (simp add: reconcilePVC_def implementedOrder_def stage_defs)
          next
            case cap: (Some capacity)
            show ?thesis
            proof (cases "convertPercentageToBytes a (annotation p PVCAutoscalerIncreaseAnnotation)
                            (Value capacity) DefaultIncrease")
              case (Inl err)
              with sc ex rs m th cap show ?thesis
                by (simp add: reconcilePVC_def implementedOrder_def stage_defs)
            next
              case inc: (Inr increase)
              from sc ex rs m th cap inc guard_runStages [where ms = ms and p = p, OF m th cap inc] show ?thesis
                by (simp add: reconcilePVC_def implementedOrder_def stage_defs)
            qed
          qed
        qed
      qed
    qed
  qed
qed

lemma runStages_passes: "passes ss a ms p \<Longrightarrow> runStages (ss @ rest) a ms p = runStages rest a ms p"
  by (induction ss) (simp_all add: passes_def)

lemma stage_never_issues:
  "s \<in> set implementedOrder \<Longrightarrow> s a ms p = Some out \<Longrightarrow> issued out = None"
  by (auto simp: implementedOrder_def stage_defs issued_def
      split: option.splits sum.splits if_splits)


lemma runStages_never_issues:
  "\<forall>s \<in> set ss. \<forall>out. s a ms p = Some out \<longrightarrow> issued out = None \<Longrightarrow>
   \<not> passes ss a ms p \<Longrightarrow> issued (runStages ss a ms p) = None"
  by (induction ss) (auto simp: passes_def split: option.splits)

lemma runStages_issues:
  "\<forall>s \<in> set ss. \<forall>out. s a ms p = Some out \<longrightarrow> issued out = None \<Longrightarrow>
   runStages ss a ms p = Resized target written err \<Longrightarrow>
   passes ss a ms p \<and> stageGrowth a ms p = Resized target written err"
  by (induction ss) (auto simp: passes_def issued_def split: option.splits)

lemma stages_all_quiet:
  "\<forall>s \<in> set implementedOrder. \<forall>out. s a ms p = Some out \<longrightarrow> issued out = None"
  using stage_never_issues by blast

lemma reconcilePVC_skips:
  assumes "\<not> passes implementedOrder a ms p"
  shows "issued (reconcilePVC a ms p) = None"
  unfolding reconcilePVC_runStages
  using stages_all_quiet assms by (rule runStages_never_issues)

lemma clamp_min: "(if Cmp rounded ceiling' > 0 then ceiling' else rounded) = min rounded ceiling'"
  by (simp add: Cmp_def min_def)

lemma grow_Resized:
  assumes "grow a p m threshold capacity increase ceiling' = Resized target written err"
  shows "threshold \<le> VolumeUsedBytes m \<and>
         target = min (NewQuantity (newStorageBytes (Value capacity) increase)) ceiling' \<and>
         updatePVCWithNewStorageSize a p (VolumeCapacityBytes m) target = Inr (written, err)"
  using assms
  by (auto simp: grow_def Let_def clamp_min split: if_splits sum.splits prod.splits)

lemma update_written:
  assumes "updatePVCWithNewStorageSize a p capacityBytes newStorage = Inr (written, err)"
  shows "\<exists>requests annotations.
           Requests p = Some requests \<and> Annotations p = Some annotations \<and>
           written = p
             \<lparr> Requests := Some (requests(ResourceStorage \<mapsto> newStorage)),
               Annotations := Some (annotations
                 (PVCAutoscalerPreviousCapacityAnnotation \<mapsto> FormatInt capacityBytes)) \<rparr> \<and>
           err = (case Update a written of
                    None \<Rightarrow> None
                  | Some e \<Rightarrow> Some (Errorf ''failed to update PVC'' e))"
  using assms
  by (auto simp: updatePVCWithNewStorageSize_def Let_def split: option.splits)

lemma passes_implementedOrder:
  assumes "passes implementedOrder a ms p"
  shows "\<exists>sc m threshold capacity increase ceiling'.
           StorageClassName p = Some sc \<and>
           isStorageClassExpandable a sc = Inr True \<and>
           isPVCResizable a p = None \<and>
           ms (Namespace p, Name p) = Some m \<and>
           convertPercentageToBytes a (annotation p PVCAutoscalerThresholdAnnotation)
             (VolumeCapacityBytes m) DefaultThreshold = Inr threshold \<and>
           Capacity p ResourceStorage = Some capacity \<and> Value capacity \<noteq> 0 \<and>
           convertPercentageToBytes a (annotation p PVCAutoscalerIncreaseAnnotation)
             (Value capacity) DefaultIncrease = Inr increase \<and>
           getPVCStorageCeiling a p = Inr ceiling' \<and> Cmp capacity ceiling' < 0"
proof -
  from assms have
    s1: "stageStorageClassName a ms p = None" and s2: "stageExpandable a ms p = None" and
    s3: "stageResizable a ms p = None" and s4: "stageMetrics a ms p = None" and
    s5: "stageThreshold a ms p = None" and s6: "stageCapacity a ms p = None" and
    s7: "stageIncrease a ms p = None" and s10: "stageCeiling a ms p = None" and
    s11: "stageCeilingReached a ms p = None"
    by (simp_all add: passes_def implementedOrder_def)
  from s1 obtain sc where sc: "StorageClassName p = Some sc"
    by (auto simp: stageStorageClassName_def split: option.splits)
  from s2 sc have ex: "isStorageClassExpandable a sc = Inr True"
    by (auto simp: stageExpandable_def split: sum.splits if_splits)
  from s3 have rs: "isPVCResizable a p = None"
    by (auto simp: stageResizable_def split: option.splits)
  from s4 obtain m where m: "ms (Namespace p, Name p) = Some m"
    by (auto simp: stageMetrics_def split: option.splits)
  from s5 m obtain threshold where th:
    "convertPercentageToBytes a (annotation p PVCAutoscalerThresholdAnnotation)
       (VolumeCapacityBytes m) DefaultThreshold = Inr threshold"
    by (auto simp: stageThreshold_def split: sum.splits)
  from s6 obtain capacity where cap: "Capacity p ResourceStorage = Some capacity" "Value capacity \<noteq> 0"
    by (auto simp: stageCapacity_def split: option.splits if_splits)
  from s7 cap obtain increase where inc:
    "convertPercentageToBytes a (annotation p PVCAutoscalerIncreaseAnnotation)
       (Value capacity) DefaultIncrease = Inr increase"
    by (auto simp: stageIncrease_def split: sum.splits)
  from s10 obtain ceiling' where ce: "getPVCStorageCeiling a p = Inr ceiling'"
    by (auto simp: stageCeiling_def split: sum.splits)
  from s11 ce cap have lt: "Cmp capacity ceiling' < 0"
    by (auto simp: stageCeilingReached_def Cmp_def split: if_splits)
  from sc ex rs m th cap inc ce lt show ?thesis by blast
qed

lemma reconcilePVC_Resized:
  assumes "reconcilePVC a ms p = Resized target written err"
  shows "\<exists>sc m threshold capacity increase ceiling'.
           StorageClassName p = Some sc \<and>
           isStorageClassExpandable a sc = Inr True \<and>
           isPVCResizable a p = None \<and>
           ms (Namespace p, Name p) = Some m \<and>
           convertPercentageToBytes a (annotation p PVCAutoscalerThresholdAnnotation)
             (VolumeCapacityBytes m) DefaultThreshold = Inr threshold \<and>
           Capacity p ResourceStorage = Some capacity \<and> Value capacity \<noteq> 0 \<and>
           convertPercentageToBytes a (annotation p PVCAutoscalerIncreaseAnnotation)
             (Value capacity) DefaultIncrease = Inr increase \<and>
           getPVCStorageCeiling a p = Inr ceiling' \<and> Cmp capacity ceiling' < 0 \<and>
           threshold \<le> VolumeUsedBytes m \<and>
           target = min (NewQuantity (newStorageBytes (Value capacity) increase)) ceiling' \<and>
           updatePVCWithNewStorageSize a p (VolumeCapacityBytes m) target = Inr (written, err)"
proof -
  from assms have "runStages implementedOrder a ms p = Resized target written err"
    by (simp add: reconcilePVC_runStages)
  with stages_all_quiet
  have ps: "passes implementedOrder a ms p" and g: "stageGrowth a ms p = Resized target written err"
    using runStages_issues by blast+
  from passes_implementedOrder [OF ps] obtain sc m threshold capacity increase ceiling' where f:
    "StorageClassName p = Some sc" "isStorageClassExpandable a sc = Inr True"
    "isPVCResizable a p = None" "ms (Namespace p, Name p) = Some m"
    "convertPercentageToBytes a (annotation p PVCAutoscalerThresholdAnnotation)
       (VolumeCapacityBytes m) DefaultThreshold = Inr threshold"
    "Capacity p ResourceStorage = Some capacity" "Value capacity \<noteq> 0"
    "convertPercentageToBytes a (annotation p PVCAutoscalerIncreaseAnnotation)
       (Value capacity) DefaultIncrease = Inr increase"
    "getPVCStorageCeiling a p = Inr ceiling'" "Cmp capacity ceiling' < 0"
    by blast
  from g f have "grow a p m threshold capacity increase ceiling' = Resized target written err"
    by (simp add: stageGrowth_def)
  from grow_Resized [OF this] f show ?thesis by blast
qed

section \<open>The marker survives the round trip through its decimal string\<close>

lemma parseDigits_append:
  "parseDigits acc (xs @ ys) =
     (case parseDigits acc xs of None \<Rightarrow> None | Some acc' \<Rightarrow> parseDigits acc' ys)"
  by (induction xs arbitrary: acc) (auto split: option.splits)

lemma digitVal_digitChar: "0 \<le> d \<Longrightarrow> d < 10 \<Longrightarrow> digitVal (digitChar d) = Some d"
  by (simp add: digitVal_def digitChar_def)

lemma digitVal_not_sign: "digitVal c = Some d \<Longrightarrow> c \<noteq> CHR ''-'' \<and> c \<noteq> CHR ''+''"
  by (auto simp: digitVal_def split: if_splits)

lemma parseDigits_showDigits: "0 \<le> n \<Longrightarrow> parseDigits 0 (showDigits n) = Some n"
proof (induction n rule: showDigits.induct)
  case (1 n)
  show ?case
  proof (cases "n < 10")
    case True
    with "1.prems" show ?thesis
      by (simp add: showDigits.simps [of n] digitVal_digitChar)
  next
    case False
    with "1.prems" have ih: "parseDigits 0 (showDigits (n div 10)) = Some (n div 10)"
      using "1.IH" by simp
    have d: "digitVal (digitChar (n mod 10)) = Some (n mod 10)"
      by (simp add: digitVal_digitChar)
    from False ih d show ?thesis
      by (simp add: showDigits.simps [of n] parseDigits_append)
  qed
qed

lemma showDigits_head:
  "0 \<le> n \<Longrightarrow> \<exists>c cs d. showDigits n = c # cs \<and> digitVal c = Some d"
proof (induction n rule: showDigits.induct)
  case (1 n)
  show ?case
  proof (cases "n < 10")
    case True
    with "1.prems" show ?thesis
      by (simp add: showDigits.simps [of n] digitVal_digitChar)
  next
    case False
    with "1.prems" "1.IH" obtain c cs d where "showDigits (n div 10) = c # cs" "digitVal c = Some d"
      by fastforce
    with False show ?thesis
      by (simp add: showDigits.simps [of n])
  qed
qed

lemma ParseInt_showDigits:
  assumes "0 \<le> n" and "is_int64 n"
  shows "ParseInt (showDigits n) = Inr n"
proof -
  from showDigits_head [OF assms(1)] obtain c cs d where
    s: "showDigits n = c # cs" and c: "digitVal c = Some d"
    by blast
  from c have ns: "c \<noteq> CHR ''-''" "c \<noteq> CHR ''+''"
    using digitVal_not_sign by blast+
  from parseDigits_showDigits [OF assms(1)] s have "parseDigits 0 (c # cs) = Some n"
    by simp
  with s ns assms(2) show ?thesis
    by (simp add: ParseInt_def del: parseDigits.simps)
qed

lemma ParseInt_FormatInt: "is_int64 v \<Longrightarrow> ParseInt (FormatInt v) = Inr v"
proof (cases "v < 0")
  case False
  moreover assume "is_int64 v"
  ultimately show ?thesis
    by (simp add: FormatInt_def ParseInt_showDigits)
next
  case True
  assume v: "is_int64 v"
  from True have n: "0 \<le> - v" by simp
  from showDigits_head [OF n] obtain c cs d where s: "showDigits (- v) = c # cs"
    by blast
  from parseDigits_showDigits [OF n] s have "parseDigits 0 (c # cs) = Some (- v)"
    by simp
  with True s v show ?thesis
    by (simp add: FormatInt_def ParseInt_def del: parseDigits.simps)
qed

section \<open>Running the loop body on the cluster\<close>

lemmas run_defs =
  reconcilePVC_def guard_def grow_def updatePVCWithNewStorageSize_def issued_def
  cluster_def claim_def metricsOf_def annotation_def lookupAnnotation_def
  PVCAutoscalerThresholdAnnotation_def PVCAutoscalerIncreaseAnnotation_def
  PVCAutoscalerCeilingAnnotation_def PVCAutoscalerPreviousCapacityAnnotation_def
  DefaultThreshold_def DefaultIncrease_def ResourceStorage_def
  percentageToBytes_def parseQuantity_def suffixMultiplier_def storageCeiling_def
  ParseInt_def digitVal_def is_int64_def GiB_def Let_def Value_def Cmp_def NewQuantity_def

lemma FormatInt_10GiB: "FormatInt 10737418240 = ''10737418240''"
  by code_simp

lemma newStorageBytes_12GiB: "newStorageBytes 10737418240 2147483648 = 12884901888"
  by code_simp

lemma newStorageBytes_overflow:
  "newStorageBytes 4611686018427387904 4611686018427387904 = - 9223372036854775808"
  by code_simp

lemma FormatInt_4EiB: "FormatInt 4611686018427387904 = ''4611686018427387904''"
  by code_simp

lemma newStorageBytes_24GiB: "newStorageBytes 21474836480 4294967296 = 25769803776"
  by code_simp

lemma newStorageBytes_22GiB: "newStorageBytes 21474836480 2147483648 = 23622320128"
  by code_simp

lemma newStorageBytes_above_2_53:
  "newStorageBytes 7505999378950828 1501199875790165 = 9007199254740992"
  by code_simp

lemma FormatInt_above_2_53: "FormatInt 7505999378950828 = ''7505999378950828''"
  by code_simp

lemma Value_NewQuantity: "Value (NewQuantity v) = v"
  by (simp add: Value_def NewQuantity_def)

lemma Value_close: "q < of_int (Value q) + 1 \<and> of_int (Value q) - 1 < q"
  by (simp add: Value_def) linarith

section \<open>Bounds of a resize\<close>

text \<open>
  Where line 140 computes exactly, a resize grows the claim: the new size is at most the
  ceiling returned for the claim, and when the converted increase is positive and the raw
  target has a magnitude of at most \<open>2 ^ 53\<close> bytes it is greater than the capacity in the
  claim's status.
\<close>

lemma resize_target_bounds:
  assumes "reconcilePVC a ms p = Resized target written err"
  shows "\<exists>capacity increase ceiling'.
           Capacity p ResourceStorage = Some capacity \<and>
           convertPercentageToBytes a (annotation p PVCAutoscalerIncreaseAnnotation)
             (Value capacity) DefaultIncrease = Inr increase \<and>
           getPVCStorageCeiling a p = Inr ceiling' \<and>
           Cmp target ceiling' \<le> 0 \<and>
           (0 < increase \<and> \<bar>Value capacity + increase\<bar> \<le> 2 ^ 53 \<longrightarrow> Cmp target capacity > 0)"
proof -
  from reconcilePVC_Resized [OF assms] obtain capacity increase ceiling' where
    cap: "Capacity p ResourceStorage = Some capacity" and
    inc: "convertPercentageToBytes a (annotation p PVCAutoscalerIncreaseAnnotation)
            (Value capacity) DefaultIncrease = Inr increase" and
    ce: "getPVCStorageCeiling a p = Inr ceiling'" and
    lt: "Cmp capacity ceiling' < 0" and
    tg: "target = min (NewQuantity (newStorageBytes (Value capacity) increase)) ceiling'"
    by blast
  from lt have lt': "capacity < ceiling'"
    by (simp add: Cmp_def split: if_splits)
  from tg have le: "Cmp target ceiling' \<le> 0"
    by (simp add: Cmp_def)
  have "Cmp target capacity > 0" if "0 < increase" and "\<bar>Value capacity + increase\<bar> \<le> 2 ^ 53"
  proof -
    from that(2) have "Value capacity + increase \<le> newStorageBytes (Value capacity) increase"
      using ceilGiB_bounds [of "Value capacity + increase"] by (simp add: newStorageBytes_exact)
    with that(1) have "Value capacity + 1 \<le> newStorageBytes (Value capacity) increase"
      by simp
    then have "(of_int (Value capacity) :: rat) + 1 \<le> NewQuantity (newStorageBytes (Value capacity) increase)"
      unfolding NewQuantity_def by (metis of_int_1 of_int_add of_int_le_iff)
    with Value_close [of capacity]
    have "capacity < NewQuantity (newStorageBytes (Value capacity) increase)"
      by linarith
    with lt' tg have "capacity < target"
      by simp
    then show ?thesis
      by (simp add: Cmp_def)
  qed
  with cap inc ce le show ?thesis by auto
qed

text \<open>
  Claim C1 says that every resize has a target strictly greater than the claim's current
  capacity and at most the ceiling. The sum at line 140 can leave \<open>int64\<close>: for a full
  claim of \<open>2 ^ 62\<close> bytes with an increase annotation of 100% and a ceiling of 6 EiB,
  \<open>capacity.Value() + increase\<close> wraps to \<open>- 2 ^ 63\<close>, and that negative size, below the
  capacity of the claim, is the target handed to \<open>Update\<close>.
\<close>

theorem resize_overflow_shrinks:
  "Capacity (claim (Some ''standard'') 4611686018427387904
      [(''increase'', ''100%''), (''ceiling'', ''6Ei'')]) ResourceStorage =
     Some (NewQuantity 4611686018427387904) \<and>
   map_option fst (issued (reconcilePVC (cluster [] (Inl (Err ''unused'')))
     (metricsOf 4611686018427387904 4611686018427387904)
     (claim (Some ''standard'') 4611686018427387904
        [(''increase'', ''100%''), (''ceiling'', ''6Ei'')]))) =
     Some (NewQuantity (- 9223372036854775808)) \<and>
   Cmp (NewQuantity (- 9223372036854775808)) (NewQuantity 4611686018427387904) < 0"
  by (simp add: run_defs newStorageBytes_overflow FormatInt_4EiB)

section \<open>Rounding up to the next gibibyte\<close>

text \<open>
  Claim C3 says that the target before the clamp is the smallest multiple of 1 GiB that
  is not below \<open>currentCapacity + increase\<close>, and that the rounding never rounds down.
  Beyond \<open>2 ^ 53\<close> the conversion to \<open>float64\<close> at line 140 loses the low bits before
  \<open>math.Ceil\<close> is applied. A full claim of 7505999378950828 bytes with the default increase
  of 20% has the raw target \<open>2 ^ 53 + 1\<close>; line 140 computes \<open>2 ^ 53\<close>, which is below it,
  and that is the size the resize requests.
\<close>

theorem rounding_down_above_2_53:
  "percentageToBytes [] 7505999378950828 DefaultIncrease = Inr 1501199875790165 \<and>
   newStorageBytes 7505999378950828 1501199875790165 = 9007199254740992 \<and>
   newStorageBytes 7505999378950828 1501199875790165 < 7505999378950828 + 1501199875790165 \<and>
   map_option fst (issued (reconcilePVC (cluster [] (Inl (Err ''unused'')))
     (metricsOf 7505999378950828 7505999378950828)
     (claim (Some ''standard'') 7505999378950828 []))) =
     Some (NewQuantity 9007199254740992)"
proof -
  have a: "percentageToBytes [] 7505999378950828 DefaultIncrease = Inr 1501199875790165"
    by (simp add: percentageToBytes_def DefaultIncrease_def ParseInt_def digitVal_def is_int64_def)
  have b: "newStorageBytes 7505999378950828 1501199875790165 = 9007199254740992"
    by (rule newStorageBytes_above_2_53)
  have c: "map_option fst (issued (reconcilePVC (cluster [] (Inl (Err ''unused'')))
     (metricsOf 7505999378950828 7505999378950828)
     (claim (Some ''standard'') 7505999378950828 []))) =
     Some (NewQuantity 9007199254740992)"
    by (simp add: run_defs newStorageBytes_above_2_53 FormatInt_above_2_53)
  from a b c show ?thesis by simp
qed

section \<open>The pending marker\<close>

text \<open>
  Claim C2. When the \<open>previous_capacity\<close> annotation of a claim is present and parses to
  the capacity that the metrics report for it, the loop body issues no resize, whatever
  the usage, the policy or the collaborators' answers are; and a claim that passes the
  seven checks before the marker is skipped as pending. Nothing is written for a skipped
  claim, so the same holds at every later cycle in which marker and reported capacity
  still agree.
\<close>

theorem pending_resize_is_skipped:
  assumes "lookupAnnotation p PVCAutoscalerPreviousCapacityAnnotation = Some previousCapacity"
    and "ParseInt previousCapacity = Inr (VolumeCapacityBytes m)"
    and "ms (Namespace p, Name p) = Some m"
  shows "issued (reconcilePVC a ms p) = None \<and>
         (passes [stageStorageClassName, stageExpandable, stageResizable, stageMetrics,
                  stageThreshold, stageCapacity, stageIncrease] a ms p \<longrightarrow>
          reconcilePVC a ms p = Skipped Pending)"
proof
  from assms have pending: "stagePending a ms p = Some (Skipped Pending)"
    by (simp add: stagePending_def)
  then have "\<not> passes implementedOrder a ms p"
    by (simp add: passes_def implementedOrder_def)
  then show "issued (reconcilePVC a ms p) = None"
    by (rule reconcilePVC_skips)
  from assms have "stageMarker a ms p = None"
    by (simp add: stageMarker_def)
  with pending show "passes [stageStorageClassName, stageExpandable, stageResizable, stageMetrics,
                  stageThreshold, stageCapacity, stageIncrease] a ms p \<longrightarrow>
          reconcilePVC a ms p = Skipped Pending"
    by (simp add: reconcilePVC_runStages implementedOrder_def passes_def)
qed

text \<open>
  A claim of 10 GiB whose marker is 10737418240, once full and once empty: skipped as
  pending both times.
\<close>

theorem pending_resize_is_skipped_witness:
  "issued (reconcilePVC (cluster [] (Inl (Err ''unused''))) (metricsOf (10 * GiB) (10 * GiB))
     (claim (Some ''standard'') (10 * GiB) [(''previous_capacity'', ''10737418240'')])) = None \<and>
   reconcilePVC (cluster [] (Inl (Err ''unused''))) (metricsOf (10 * GiB) (10 * GiB))
     (claim (Some ''standard'') (10 * GiB) [(''previous_capacity'', ''10737418240'')]) = Skipped Pending \<and>
   reconcilePVC (cluster [] (Inl (Err ''unused''))) (metricsOf 0 (10 * GiB))
     (claim (Some ''standard'') (10 * GiB) [(''previous_capacity'', ''10737418240'')]) = Skipped Pending"
proof -
  let ?a = "cluster [] (Inl (Err ''unused''))"
  let ?p = "claim (Some ''standard'') (10 * GiB) [(''previous_capacity'', ''10737418240'')]"
  let ?m = "\<lambda>used. \<lparr> VolumeUsedBytes = used, VolumeCapacityBytes = 10 * GiB \<rparr>"
  have marker: "lookupAnnotation ?p PVCAutoscalerPreviousCapacityAnnotation = Some ''10737418240''"
    by (simp add: run_defs)
  have parsed: "ParseInt ''10737418240'' = Inr (VolumeCapacityBytes (?m used))" for used
    by (simp add: run_defs)
  have metrics: "metricsOf used (10 * GiB) (Namespace ?p, Name ?p) = Some (?m used)" for used
    by (simp add: run_defs)
  have gates: "passes [stageStorageClassName, stageExpandable, stageResizable, stageMetrics,
                  stageThreshold, stageCapacity, stageIncrease] ?a (metricsOf used (10 * GiB)) ?p" for used
    by (simp add: passes_def stage_defs run_defs)
  from pending_resize_is_skipped
         [where ms = "metricsOf (10 * GiB) (10 * GiB)" and a = ?a, OF marker parsed metrics]
       pending_resize_is_skipped
         [where ms = "metricsOf 0 (10 * GiB)" and a = ?a, OF marker parsed metrics]
       gates [of "10 * GiB"] gates [of 0]
  show ?thesis by blast
qed

section \<open>The ceiling\<close>

text \<open>
  Claim C4. When the capacity in a claim's status is greater than or equal to the
  ceiling returned for the claim (\<open>capacity.Cmp(ceiling) >= 0\<close>, a comparison of the exact
  quantities), the loop body issues no resize, whatever the usage is;
  and a claim that passes the nine checks before the ceiling is skipped because the
  storage limit is reached.
\<close>

theorem ceiling_reached_is_skipped:
  assumes "Capacity p ResourceStorage = Some capacity"
    and "getPVCStorageCeiling a p = Inr ceiling'"
    and "Cmp capacity ceiling' \<ge> 0"
  shows "issued (reconcilePVC a ms p) = None \<and>
         (passes [stageStorageClassName, stageExpandable, stageResizable, stageMetrics,
                  stageThreshold, stageCapacity, stageIncrease, stageMarker, stagePending] a ms p \<longrightarrow>
          reconcilePVC a ms p = Skipped CeilingReached)"
proof
  from assms have reached: "stageCeilingReached a ms p = Some (Skipped CeilingReached)"
    by (simp add: stageCeilingReached_def)
  then have "\<not> passes implementedOrder a ms p"
    by (simp add: passes_def implementedOrder_def)
  then show "issued (reconcilePVC a ms p) = None"
    by (rule reconcilePVC_skips)
  from assms have "stageCeiling a ms p = None"
    by (simp add: stageCeiling_def)
  with reached show "passes [stageStorageClassName, stageExpandable, stageResizable, stageMetrics,
                  stageThreshold, stageCapacity, stageIncrease, stageMarker, stagePending] a ms p \<longrightarrow>
          reconcilePVC a ms p = Skipped CeilingReached"
    by (simp add: reconcilePVC_runStages implementedOrder_def passes_def)
qed

text \<open>
  A full claim of 10 GiB with a ceiling of 10 GiB: its usage is above the threshold of
  8 GiB, and it is skipped.
\<close>

theorem ceiling_reached_is_skipped_witness:
  "issued (reconcilePVC (cluster [] (Inl (Err ''unused''))) (metricsOf (10 * GiB) (10 * GiB))
     (claim (Some ''standard'') (10 * GiB) [(''ceiling'', ''10Gi'')])) = None \<and>
   reconcilePVC (cluster [] (Inl (Err ''unused''))) (metricsOf (10 * GiB) (10 * GiB))
     (claim (Some ''standard'') (10 * GiB) [(''ceiling'', ''10Gi'')]) = Skipped CeilingReached \<and>
   percentageToBytes [] (10 * GiB) DefaultThreshold = Inr (8 * GiB)"
proof -
  let ?a = "cluster [] (Inl (Err ''unused''))"
  let ?ms = "metricsOf (10 * GiB) (10 * GiB)"
  let ?p = "claim (Some ''standard'') (10 * GiB) [(''ceiling'', ''10Gi'')]"
  have cap: "Capacity ?p ResourceStorage = Some (NewQuantity (10 * GiB))"
    by (simp add: run_defs)
  have ce: "getPVCStorageCeiling ?a ?p = Inr (NewQuantity (10 * GiB))"
    by (simp add: run_defs)
  have le: "Cmp (NewQuantity (10 * GiB)) (NewQuantity (10 * GiB)) \<ge> 0"
    by (simp add: Cmp_def)
  have gates: "passes [stageStorageClassName, stageExpandable, stageResizable, stageMetrics,
                  stageThreshold, stageCapacity, stageIncrease, stageMarker, stagePending] ?a ?ms ?p"
    by (simp add: passes_def stage_defs run_defs)
  have th: "percentageToBytes [] (10 * GiB) DefaultThreshold = Inr (8 * GiB)"
    by (simp add: run_defs)
  from ceiling_reached_is_skipped [where ms = ?ms, OF cap ce le] gates th
  show ?thesis by blast
qed

text \<open>
  The comparison is exact. A status capacity of 10737418239.5 bytes is below a ceiling of
  10 GiB, although its \<open>Value()\<close> is 10 GiB: such a claim is not skipped, and with enough
  usage it is resized to the ceiling.
\<close>

lemma ceiling_just_below_10GiB: "\<lceil>21474836479 / 2 :: rat\<rceil> = 10737418240"
  by (rule ceiling_unique) simp_all

lemma capacity_just_below_ceiling:
  "Value (10737418239500 / 1000) = 10 * GiB \<and>
   map_option fst (issued (reconcilePVC (cluster [] (Inl (Err ''unused'')))
     (metricsOf (9 * GiB) (10 * GiB))
     ((claim (Some ''standard'') (10 * GiB) [(''ceiling'', ''10Gi'')])
        \<lparr> Capacity := [ResourceStorage \<mapsto> 10737418239500 / 1000] \<rparr>))) =
     Some (NewQuantity (10 * GiB))"
  by (simp add: run_defs ceiling_just_below_10GiB newStorageBytes_12GiB FormatInt_10GiB)

section \<open>A capacity of zero\<close>

text \<open>
  Claim C10. When the status of a claim has a storage capacity entry of zero bytes, the
  loop body issues no resize; and a claim that passes the checks before it (storage
  class, resizable condition, metrics, threshold conversion) is skipped because its
  capacity is zero.
\<close>

theorem zero_capacity_is_skipped:
  assumes "Capacity p ResourceStorage = Some 0"
  shows "issued (reconcilePVC a ms p) = None \<and>
         (passes [stageStorageClassName, stageExpandable, stageResizable, stageMetrics,
                  stageThreshold] a ms p \<longrightarrow>
          reconcilePVC a ms p = Skipped CapacityZero)"
proof
  from assms have zero: "stageCapacity a ms p = Some (Skipped CapacityZero)"
    by (simp add: stageCapacity_def Value_def)
  then have "\<not> passes implementedOrder a ms p"
    by (simp add: passes_def implementedOrder_def)
  then show "issued (reconcilePVC a ms p) = None"
    by (rule reconcilePVC_skips)
  from zero show "passes [stageStorageClassName, stageExpandable, stageResizable, stageMetrics,
                  stageThreshold] a ms p \<longrightarrow>
          reconcilePVC a ms p = Skipped CapacityZero"
    by (simp add: reconcilePVC_runStages implementedOrder_def passes_def)
qed

text \<open>A claim with capacity zero in a cluster where every other gate passes.\<close>

theorem zero_capacity_is_skipped_witness:
  "issued (reconcilePVC (cluster [] (Inl (Err ''unused''))) (metricsOf (10 * GiB) (10 * GiB))
     (claim (Some ''standard'') 0 [])) = None \<and>
   reconcilePVC (cluster [] (Inl (Err ''unused''))) (metricsOf (10 * GiB) (10 * GiB))
     (claim (Some ''standard'') 0 []) = Skipped CapacityZero"
proof -
  let ?a = "cluster [] (Inl (Err ''unused''))"
  let ?ms = "metricsOf (10 * GiB) (10 * GiB)"
  let ?p = "claim (Some ''standard'') 0 []"
  have cap: "Capacity ?p ResourceStorage = Some 0"
    by (simp add: run_defs)
  have gates: "passes [stageStorageClassName, stageExpandable, stageResizable, stageMetrics,
                  stageThreshold] ?a ?ms ?p"
    by (simp add: passes_def stage_defs run_defs)
  from zero_capacity_is_skipped [where ms = ?ms and a = ?a, OF cap] gates
  show ?thesis by blast
qed

section \<open>What a resize writes\<close>

text \<open>
  Claim C5. A resize calls \<open>Update\<close> with the claim that was read, changed in two places
  only: the storage request is the new size, and the \<open>previous_capacity\<close> annotation is the
  decimal string of the capacity that the metrics reported before the resize. Every other
  field, and the threshold, increase and ceiling annotations, are as they were read. The
  error of the resize is the answer of \<open>Update\<close> to exactly that claim. The string parses
  back to the reported capacity.
\<close>

theorem resize_writes_request_and_marker:
  assumes "reconcilePVC a ms p = Resized target written err"
  shows "\<exists>requests annotations m.
           Requests p = Some requests \<and> Annotations p = Some annotations \<and>
           ms (Namespace p, Name p) = Some m \<and>
           written = p
             \<lparr> Requests := Some (requests(ResourceStorage \<mapsto> target)),
               Annotations := Some (annotations
                 (PVCAutoscalerPreviousCapacityAnnotation \<mapsto> FormatInt (VolumeCapacityBytes m))) \<rparr> \<and>
           err = (case Update a written of
                    None \<Rightarrow> None
                  | Some e \<Rightarrow> Some (Errorf ''failed to update PVC'' e)) \<and>
           lookupAnnotation written PVCAutoscalerThresholdAnnotation =
             lookupAnnotation p PVCAutoscalerThresholdAnnotation \<and>
           lookupAnnotation written PVCAutoscalerIncreaseAnnotation =
             lookupAnnotation p PVCAutoscalerIncreaseAnnotation \<and>
           lookupAnnotation written PVCAutoscalerCeilingAnnotation =
             lookupAnnotation p PVCAutoscalerCeilingAnnotation \<and>
           lookupAnnotation written PVCAutoscalerPreviousCapacityAnnotation =
             Some (FormatInt (VolumeCapacityBytes m)) \<and>
           (is_int64 (VolumeCapacityBytes m) \<longrightarrow>
              ParseInt (FormatInt (VolumeCapacityBytes m)) = Inr (VolumeCapacityBytes m))"
proof -
  from reconcilePVC_Resized [OF assms] obtain m where
    m: "ms (Namespace p, Name p) = Some m" and
    up: "updatePVCWithNewStorageSize a p (VolumeCapacityBytes m) target = Inr (written, err)"
    by blast
  from update_written [OF up] obtain requests annotations where
    rq: "Requests p = Some requests" and an: "Annotations p = Some annotations" and
    w: "written = p
          \<lparr> Requests := Some (requests(ResourceStorage \<mapsto> target)),
            Annotations := Some (annotations
              (PVCAutoscalerPreviousCapacityAnnotation \<mapsto> FormatInt (VolumeCapacityBytes m))) \<rparr>" and
    e: "err = (case Update a written of
                 None \<Rightarrow> None
               | Some e \<Rightarrow> Some (Errorf ''failed to update PVC'' e))"
    by blast
  from w an have keep:
    "lookupAnnotation written PVCAutoscalerThresholdAnnotation =
       lookupAnnotation p PVCAutoscalerThresholdAnnotation"
    "lookupAnnotation written PVCAutoscalerIncreaseAnnotation =
       lookupAnnotation p PVCAutoscalerIncreaseAnnotation"
    "lookupAnnotation written PVCAutoscalerCeilingAnnotation =
       lookupAnnotation p PVCAutoscalerCeilingAnnotation"
    "lookupAnnotation written PVCAutoscalerPreviousCapacityAnnotation =
       Some (FormatInt (VolumeCapacityBytes m))"
    by (simp_all add: lookupAnnotation_def PVCAutoscalerThresholdAnnotation_def
        PVCAutoscalerIncreaseAnnotation_def PVCAutoscalerCeilingAnnotation_def
        PVCAutoscalerPreviousCapacityAnnotation_def)
  from m rq an w e keep ParseInt_FormatInt [of "VolumeCapacityBytes m"] show ?thesis
    by blast
qed

text \<open>
  A claim of 10 GiB that holds 9 GiB, with a threshold annotation of 85%. The API server
  of the first cluster accepts a write only if it carries the marker 10737418240 and a
  storage request of 12 GiB: the update succeeds. The API server of the second cluster
  rejects every write: the resize reports the error of the update.
\<close>

theorem resize_writes_request_and_marker_witness:
  "reconcilePVC
     (admitting
        (\<lambda>w. lookupAnnotation w PVCAutoscalerPreviousCapacityAnnotation = Some ''10737418240'' \<and>
              (case Requests w of
                 None \<Rightarrow> False
               | Some r \<Rightarrow> r ResourceStorage = Some (NewQuantity (12 * GiB))))
        (cluster [] (Inl (Err ''unused''))))
     (metricsOf (9 * GiB) (10 * GiB))
     (claim (Some ''standard'') (10 * GiB) [(''threshold'', ''85%'')]) =
   Resized (NewQuantity (12 * GiB))
     ((claim (Some ''standard'') (10 * GiB) [(''threshold'', ''85%'')])
        \<lparr> Requests := Some [ResourceStorage \<mapsto> NewQuantity (12 * GiB)],
          Annotations := Some [''threshold'' \<mapsto> ''85%'', ''previous_capacity'' \<mapsto> ''10737418240''] \<rparr>)
     None \<and>
   reconcilePVC (admitting (\<lambda>w. False) (cluster [] (Inl (Err ''unused''))))
     (metricsOf (9 * GiB) (10 * GiB))
     (claim (Some ''standard'') (10 * GiB) [(''threshold'', ''85%'')]) =
   Resized (NewQuantity (12 * GiB))
     ((claim (Some ''standard'') (10 * GiB) [(''threshold'', ''85%'')])
        \<lparr> Requests := Some [ResourceStorage \<mapsto> NewQuantity (12 * GiB)],
          Annotations := Some [''threshold'' \<mapsto> ''85%'', ''previous_capacity'' \<mapsto> ''10737418240''] \<rparr>)
     (Some (Errorf ''failed to update PVC'' (Err ''rejected''))) \<and>
   is_int64 (10 * GiB) \<and>
   ParseInt (FormatInt (10 * GiB)) = Inr (10 * GiB)"
proof -
  let ?ok = "\<lambda>w. lookupAnnotation w PVCAutoscalerPreviousCapacityAnnotation = Some ''10737418240'' \<and>
              (case Requests w of
                 None \<Rightarrow> False
               | Some r \<Rightarrow> r ResourceStorage = Some (NewQuantity (12 * GiB)))"
  let ?a = "admitting ?ok (cluster [] (Inl (Err ''unused'')))"
  let ?b = "admitting (\<lambda>w. False) (cluster [] (Inl (Err ''unused'')))"
  let ?ms = "metricsOf (9 * GiB) (10 * GiB)"
  let ?p = "claim (Some ''standard'') (10 * GiB) [(''threshold'', ''85%'')]"
  let ?w = "?p \<lparr> Requests := Some [ResourceStorage \<mapsto> NewQuantity (12 * GiB)],
          Annotations := Some [''threshold'' \<mapsto> ''85%'', ''previous_capacity'' \<mapsto> ''10737418240''] \<rparr>"
  have run: "reconcilePVC ?a ?ms ?p = Resized (NewQuantity (12 * GiB)) ?w None"
    by (simp add: admitting_def run_defs newStorageBytes_12GiB FormatInt_10GiB)
  have rej: "reconcilePVC ?b ?ms ?p =
      Resized (NewQuantity (12 * GiB)) ?w (Some (Errorf ''failed to update PVC'' (Err ''rejected'')))"
    by (simp add: admitting_def run_defs newStorageBytes_12GiB FormatInt_10GiB)
  have m: "?ms (Namespace ?p, Name ?p) = Some \<lparr> VolumeUsedBytes = 9 * GiB, VolumeCapacityBytes = 10 * GiB \<rparr>"
    by (simp add: run_defs)
  have r: "is_int64 (10 * GiB)"
    by (simp add: is_int64_def GiB_def)
  from resize_writes_request_and_marker [OF run] m r
  have "ParseInt (FormatInt (10 * GiB)) = Inr (10 * GiB)"
    by auto
  with run rej r show ?thesis
    by (intro conjI)
qed

section \<open>The order of the checks\<close>

lemma runStages_first_failure:
  assumes "n < length ss" and "passes (take n ss) a ms p" and "(ss ! n) a ms p = Some out"
  shows "runStages ss a ms p = out"
proof -
  from assms(1) have "ss = take n ss @ (ss ! n) # drop (Suc n) ss"
    by (rule id_take_nth_drop)
  then have "runStages ss a ms p = runStages (take n ss @ (ss ! n) # drop (Suc n) ss) a ms p"
    by simp
  also from assms(2) have "\<dots> = runStages ((ss ! n) # drop (Suc n) ss) a ms p"
    by (rule runStages_passes)
  also from assms(3) have "\<dots> = out"
    by simp
  finally show ?thesis .
qed

text \<open>
  Claim C6, as amended. The loop body runs its checks in one fixed order, and the first
  check that fails ends the iteration, whatever the later checks would say. The order is
  the one of the source: the storage class name, the expandable storage class, the
  resizable condition and the metrics of the claim come first; then the threshold is
  converted, the status capacity is checked, the increase is converted, the marker is
  parsed and compared, the ceiling is fetched and compared; growth comes last.
\<close>

theorem checks_run_in_implemented_order:
  "reconcilePVC a ms p = runStages implementedOrder a ms p \<and>
   (\<forall>n out. n < length implementedOrder \<and> passes (take n implementedOrder) a ms p \<and>
             (implementedOrder ! n) a ms p = Some out \<longrightarrow>
             reconcilePVC a ms p = out)"
  using runStages_first_failure [of _ implementedOrder a ms p]
  by (auto simp: reconcilePVC_runStages)

text \<open>
  A claim of the storage class \<open>local\<close>, which is not expandable, is skipped at the second
  check.
\<close>

theorem checks_run_in_implemented_order_witness:
  "(1::nat) < length implementedOrder \<and>
   passes (take 1 implementedOrder) (cluster [] (Inl (Err ''unused''))) (metricsOf (9 * GiB) (10 * GiB))
     (claim (Some ''local'') (10 * GiB) [(''threshold'', ''abc'')]) \<and>
   (implementedOrder ! 1) (cluster [] (Inl (Err ''unused''))) (metricsOf (9 * GiB) (10 * GiB))
     (claim (Some ''local'') (10 * GiB) [(''threshold'', ''abc'')]) = Some (Skipped NotExpandable) \<and>
   reconcilePVC (cluster [] (Inl (Err ''unused''))) (metricsOf (9 * GiB) (10 * GiB))
     (claim (Some ''local'') (10 * GiB) [(''threshold'', ''abc'')]) = Skipped NotExpandable"
proof -
  let ?a = "cluster [] (Inl (Err ''unused''))"
  let ?ms = "metricsOf (9 * GiB) (10 * GiB)"
  let ?p = "claim (Some ''local'') (10 * GiB) [(''threshold'', ''abc'')]"
  have n: "(1::nat) < length implementedOrder"
    by (simp add: implementedOrder_def)
  have ps: "passes (take 1 implementedOrder) ?a ?ms ?p"
    by (simp add: implementedOrder_def passes_def stage_defs run_defs)
  have st: "(implementedOrder ! 1) ?a ?ms ?p = Some (Skipped NotExpandable)"
    by (simp add: implementedOrder_def stage_defs run_defs)
  from checks_run_in_implemented_order [of ?a ?ms ?p] n ps st show ?thesis
    by blast
qed

text \<open>
  The same claim has a threshold annotation that does not parse. With parsing first, as
  the specification orders the stages, it would be skipped for its threshold; the loop
  body skips it for its storage class and never converts the annotation.
\<close>

theorem specified_order_counterexample:
  "runStages specifiedOrder (cluster [] (Inl (Err ''unused''))) (metricsOf (9 * GiB) (10 * GiB))
     (claim (Some ''local'') (10 * GiB) [(''threshold'', ''abc'')]) =
     Skipped (BadThreshold (Err ''quantity without digits'')) \<and>
   reconcilePVC (cluster [] (Inl (Err ''unused''))) (metricsOf (9 * GiB) (10 * GiB))
     (claim (Some ''local'') (10 * GiB) [(''threshold'', ''abc'')]) = Skipped NotExpandable"
  by (simp add: specifiedOrder_def stage_defs run_defs)

section \<open>The references of the two conversions\<close>

lemma guard_passed:
  assumes "passes [stageMarker, stagePending] a ms p"
    and "ms (Namespace p, Name p) = Some m"
    and "getPVCStorageCeiling a p = Inr ceiling'"
    and "Cmp capacity ceiling' < 0"
  shows "guard a p m threshold capacity increase =
         grow a p m threshold capacity increase ceiling'"
proof (cases "lookupAnnotation p PVCAutoscalerPreviousCapacityAnnotation")
  case None
  with assms(3,4) show ?thesis
    by (simp add: guard_def)
next
  case (Some previousCapacity)
  show ?thesis
  proof (cases "ParseInt previousCapacity")
    case (Inl err)
    with Some assms(1) show ?thesis
      by (simp add: passes_def stageMarker_def)
  next
    case (Inr parsedPreviousCapacity)
    with Some assms show ?thesis
      by (simp add: passes_def stagePending_def guard_def split: if_splits)
  qed
qed

lemma first_gates_passed:
  assumes "passes [stageStorageClassName, stageExpandable, stageResizable, stageMetrics] a ms p"
  shows "\<exists>sc. StorageClassName p = Some sc \<and> isStorageClassExpandable a sc = Inr True \<and>
              isPVCResizable a p = None"
proof -
  from assms have
    s1: "stageStorageClassName a ms p = None" and s2: "stageExpandable a ms p = None" and
    s3: "stageResizable a ms p = None"
    by (simp_all add: passes_def)
  from s1 obtain sc where sc: "StorageClassName p = Some sc"
    by (auto simp: stageStorageClassName_def split: option.splits)
  from s2 sc have "isStorageClassExpandable a sc = Inr True"
    by (auto simp: stageExpandable_def split: sum.splits if_splits)
  moreover from s3 have "isPVCResizable a p = None"
    by (auto simp: stageResizable_def split: option.splits)
  ultimately show ?thesis using sc by blast
qed

text \<open>
  Claim C7, as amended. For a claim that passes the four checks before the conversions,
  the threshold of the claim is what the converter returns for the threshold annotation
  with the capacity that the metrics report as reference, and the increase is what it
  returns for the increase annotation with the whole-byte value of the capacity in the
  claim's status as reference. An error of the first ends the iteration as a threshold
  failure, an error of the second as an increase failure; otherwise the claim is below its
  threshold exactly when the used bytes are below the first result, and a resize asks for
  the status capacity plus the second result, rounded and clamped.
\<close>

theorem conversion_references:
  assumes "passes [stageStorageClassName, stageExpandable, stageResizable, stageMetrics] a ms p"
    and "ms (Namespace p, Name p) = Some m"
  shows
    "(convertPercentageToBytes a (annotation p PVCAutoscalerThresholdAnnotation)
        (VolumeCapacityBytes m) DefaultThreshold = Inl err \<longrightarrow>
      reconcilePVC a ms p = Skipped (BadThreshold err)) \<and>
     (convertPercentageToBytes a (annotation p PVCAutoscalerThresholdAnnotation)
        (VolumeCapacityBytes m) DefaultThreshold = Inr threshold \<and>
      Capacity p ResourceStorage = Some capacity \<and> Value capacity \<noteq> 0 \<and>
      convertPercentageToBytes a (annotation p PVCAutoscalerIncreaseAnnotation)
        (Value capacity) DefaultIncrease = Inl err \<longrightarrow>
      reconcilePVC a ms p = Skipped (BadIncrease err)) \<and>
     (convertPercentageToBytes a (annotation p PVCAutoscalerThresholdAnnotation)
        (VolumeCapacityBytes m) DefaultThreshold = Inr threshold \<and>
      Capacity p ResourceStorage = Some capacity \<and> Value capacity \<noteq> 0 \<and>
      convertPercentageToBytes a (annotation p PVCAutoscalerIncreaseAnnotation)
        (Value capacity) DefaultIncrease = Inr increase \<and>
      passes [stageMarker, stagePending] a ms p \<and>
      getPVCStorageCeiling a p = Inr ceiling' \<and> Cmp capacity ceiling' < 0 \<longrightarrow>
      (VolumeUsedBytes m < threshold \<longrightarrow> reconcilePVC a ms p = Skipped BelowThreshold) \<and>
      (threshold \<le> VolumeUsedBytes m \<and> Requests p \<noteq> None \<and> Annotations p \<noteq> None \<longrightarrow>
         map_option fst (issued (reconcilePVC a ms p)) =
           Some (min (NewQuantity (newStorageBytes (Value capacity) increase)) ceiling')))"
proof -
  from first_gates_passed [OF assms(1)] obtain sc where
    sc: "StorageClassName p = Some sc" and ex: "isStorageClassExpandable a sc = Inr True" and
    rs: "isPVCResizable a p = None"
    by blast
  note m = assms(2)
  have A: "reconcilePVC a ms p = Skipped (BadThreshold err)"
    if "convertPercentageToBytes a (annotation p PVCAutoscalerThresholdAnnotation)
          (VolumeCapacityBytes m) DefaultThreshold = Inl err"
    using that sc ex rs m by (simp add: reconcilePVC_def)
  have B: "reconcilePVC a ms p = Skipped (BadIncrease err)"
    if "convertPercentageToBytes a (annotation p PVCAutoscalerThresholdAnnotation)
          (VolumeCapacityBytes m) DefaultThreshold = Inr threshold"
      and "Capacity p ResourceStorage = Some capacity" and "Value capacity \<noteq> 0"
      and "convertPercentageToBytes a (annotation p PVCAutoscalerIncreaseAnnotation)
          (Value capacity) DefaultIncrease = Inl err"
    using that sc ex rs m by (simp add: reconcilePVC_def)
  have G: "reconcilePVC a ms p = grow a p m threshold capacity increase ceiling'"
    if "convertPercentageToBytes a (annotation p PVCAutoscalerThresholdAnnotation)
          (VolumeCapacityBytes m) DefaultThreshold = Inr threshold"
      and "Capacity p ResourceStorage = Some capacity" and "Value capacity \<noteq> 0"
      and "convertPercentageToBytes a (annotation p PVCAutoscalerIncreaseAnnotation)
          (Value capacity) DefaultIncrease = Inr increase"
      and "passes [stageMarker, stagePending] a ms p"
      and "getPVCStorageCeiling a p = Inr ceiling'" and "Cmp capacity ceiling' < 0"
    using that sc ex rs m guard_passed [OF that(5) m that(6,7)]
    by (simp add: reconcilePVC_def)
  have C: "grow a p m threshold capacity increase ceiling' = Skipped BelowThreshold"
    if "VolumeUsedBytes m < threshold"
    using that by (simp add: grow_def)
  have D: "map_option fst (issued (grow a p m threshold capacity increase ceiling')) =
           Some (min (NewQuantity (newStorageBytes (Value capacity) increase)) ceiling')"
    if "threshold \<le> VolumeUsedBytes m" and "Requests p \<noteq> None" and "Annotations p \<noteq> None"
    using that
    by (auto simp: grow_def updatePVCWithNewStorageSize_def issued_def Let_def clamp_min)
  from A B G C D show ?thesis
    by (intro conjI impI) simp_all
qed

text \<open>
  A claim with a threshold annotation of 80% and an increase annotation of 20% whose
  status says 20 GiB while the metrics still report 10 GiB: with 9 GiB used it is resized
  to 24 GiB (the threshold is 8 GiB, the increase 4 GiB); with 7 GiB used it is below its
  threshold. A threshold or an increase annotation that does not parse ends the
  iteration with the matching failure.
\<close>

theorem conversion_references_witness:
  "map_option fst (issued (reconcilePVC (cluster [] (Inl (Err ''unused'')))
     (metricsOf (9 * GiB) (10 * GiB))
     (claim (Some ''standard'') (20 * GiB) [(''threshold'', ''80%''), (''increase'', ''20%'')]))) =
     Some (NewQuantity (24 * GiB)) \<and>
   reconcilePVC (cluster [] (Inl (Err ''unused''))) (metricsOf (7 * GiB) (10 * GiB))
     (claim (Some ''standard'') (20 * GiB) [(''threshold'', ''80%''), (''increase'', ''20%'')]) =
     Skipped BelowThreshold \<and>
   reconcilePVC (cluster [] (Inl (Err ''unused''))) (metricsOf (9 * GiB) (10 * GiB))
     (claim (Some ''standard'') (20 * GiB) [(''threshold'', ''abc''), (''increase'', ''20%'')]) =
     Skipped (BadThreshold (Err ''quantity without digits'')) \<and>
   reconcilePVC (cluster [] (Inl (Err ''unused''))) (metricsOf (9 * GiB) (10 * GiB))
     (claim (Some ''standard'') (20 * GiB) [(''threshold'', ''80%''), (''increase'', ''abc'')]) =
     Skipped (BadIncrease (Err ''quantity without digits''))"
proof -
  let ?a = "cluster [] (Inl (Err ''unused''))"
  let ?m = "\<lambda>used. \<lparr> VolumeUsedBytes = used, VolumeCapacityBytes = 10 * GiB \<rparr>"
  let ?p = "claim (Some ''standard'') (20 * GiB) [(''threshold'', ''80%''), (''increase'', ''20%'')]"
  let ?pt = "claim (Some ''standard'') (20 * GiB) [(''threshold'', ''abc''), (''increase'', ''20%'')]"
  let ?pi = "claim (Some ''standard'') (20 * GiB) [(''threshold'', ''80%''), (''increase'', ''abc'')]"
  have gates: "passes [stageStorageClassName, stageExpandable, stageResizable, stageMetrics]
                 ?a (metricsOf used (10 * GiB)) (claim (Some ''standard'') (20 * GiB) anns)" for used anns
    by (simp add: passes_def stage_defs cluster_def claim_def metricsOf_def)
  have metrics: "metricsOf used (10 * GiB)
                   (Namespace (claim (Some ''standard'') (20 * GiB) anns),
                    Name (claim (Some ''standard'') (20 * GiB) anns)) = Some (?m used)" for used anns
    by (simp add: metricsOf_def claim_def)
  have th: "convertPercentageToBytes ?a (annotation ?p PVCAutoscalerThresholdAnnotation)
              (VolumeCapacityBytes (?m used)) DefaultThreshold = Inr (8 * GiB)" for used
    by (simp add: run_defs)
  have cap: "Capacity ?p ResourceStorage = Some (NewQuantity (20 * GiB))"
    by (simp add: claim_def)
  have nz: "Value (NewQuantity (20 * GiB)) \<noteq> 0"
    by (simp add: Value_NewQuantity GiB_def)
  have inc: "convertPercentageToBytes ?a (annotation ?p PVCAutoscalerIncreaseAnnotation)
              (Value (NewQuantity (20 * GiB))) DefaultIncrease = Inr (4 * GiB)"
    by (simp add: run_defs)
  have guard: "passes [stageMarker, stagePending] ?a (metricsOf used (10 * GiB)) ?p" for used
    by (simp add: passes_def stage_defs run_defs)
  have ce: "getPVCStorageCeiling ?a ?p = Inr (NewQuantity (2 ^ 63 - 1))"
    by (simp add: run_defs)
  have lt: "Cmp (NewQuantity (20 * GiB)) (NewQuantity (2 ^ 63 - 1)) < 0"
    by (simp add: Cmp_def NewQuantity_def GiB_def)
  have maps: "Requests ?p \<noteq> None" "Annotations ?p \<noteq> None"
    by (simp_all add: claim_def)
  have target: "min (NewQuantity (newStorageBytes (Value (NewQuantity (20 * GiB))) (4 * GiB)))
                  (NewQuantity (2 ^ 63 - 1)) = NewQuantity (24 * GiB)"
    by (simp add: Value_def NewQuantity_def GiB_def newStorageBytes_24GiB)
  have used9: "8 * GiB \<le> VolumeUsedBytes (?m (9 * GiB))" and used7: "VolumeUsedBytes (?m (7 * GiB)) < 8 * GiB"
    by (simp_all add: GiB_def)
  have tt: "convertPercentageToBytes ?a (annotation ?pt PVCAutoscalerThresholdAnnotation)
              (VolumeCapacityBytes (?m (9 * GiB))) DefaultThreshold = Inl (Err ''quantity without digits'')"
    by (simp add: run_defs)
  have ti: "convertPercentageToBytes ?a (annotation ?pi PVCAutoscalerThresholdAnnotation)
              (VolumeCapacityBytes (?m (9 * GiB))) DefaultThreshold = Inr (8 * GiB)"
    by (simp add: run_defs)
  have capi: "Capacity ?pi ResourceStorage = Some (NewQuantity (20 * GiB))"
    by (simp add: claim_def)
  have ii: "convertPercentageToBytes ?a (annotation ?pi PVCAutoscalerIncreaseAnnotation)
              (Value (NewQuantity (20 * GiB))) DefaultIncrease = Inl (Err ''quantity without digits'')"
    by (simp add: run_defs)
  from conversion_references
         [where a = ?a and ms = "metricsOf (9 * GiB) (10 * GiB)" and p = ?p and m = "?m (9 * GiB)"
            and threshold = "8 * GiB" and capacity = "NewQuantity (20 * GiB)"
            and increase = "4 * GiB" and ceiling' = "NewQuantity (2 ^ 63 - 1)",
          OF gates metrics]
       th cap nz inc guard ce lt maps used9 target
  have one: "map_option fst (issued (reconcilePVC ?a (metricsOf (9 * GiB) (10 * GiB)) ?p)) =
               Some (NewQuantity (24 * GiB))"
    by simp
  from conversion_references
         [where a = ?a and ms = "metricsOf (7 * GiB) (10 * GiB)" and p = ?p and m = "?m (7 * GiB)"
            and threshold = "8 * GiB" and capacity = "NewQuantity (20 * GiB)"
            and increase = "4 * GiB" and ceiling' = "NewQuantity (2 ^ 63 - 1)",
          OF gates metrics]
       th cap nz inc guard ce lt used7
  have two: "reconcilePVC ?a (metricsOf (7 * GiB) (10 * GiB)) ?p = Skipped BelowThreshold"
    by simp
  from conversion_references
         [where a = ?a and ms = "metricsOf (9 * GiB) (10 * GiB)" and p = ?pt and m = "?m (9 * GiB)"
            and err = "Err ''quantity without digits''",
          OF gates metrics]
       tt
  have three: "reconcilePVC ?a (metricsOf (9 * GiB) (10 * GiB)) ?pt =
                 Skipped (BadThreshold (Err ''quantity without digits''))"
    by blast
  from conversion_references
         [where a = ?a and ms = "metricsOf (9 * GiB) (10 * GiB)" and p = ?pi and m = "?m (9 * GiB)"
            and err = "Err ''quantity without digits''" and threshold = "8 * GiB"
            and capacity = "NewQuantity (20 * GiB)",
          OF gates metrics]
       ti capi nz ii
  have four: "reconcilePVC ?a (metricsOf (9 * GiB) (10 * GiB)) ?pi =
                Skipped (BadIncrease (Err ''quantity without digits''))"
    by blast
  from one two three four show ?thesis
    by (intro conjI)
qed

text \<open>
  For the same claim with 9 GiB used the loop body resizes to 24 GiB. With the reported
  capacity of 10 GiB as the one reference of both conversions the new size would be
  22 GiB; with the status capacity of 20 GiB as the one reference the claim would be below
  its threshold of 16 GiB.
\<close>

theorem single_reference_counterexample:
  "map_option fst (issued (reconcilePVC (cluster [] (Inl (Err ''unused'')))
     (metricsOf (9 * GiB) (10 * GiB))
     (claim (Some ''standard'') (20 * GiB) [(''threshold'', ''80%''), (''increase'', ''20%'')]))) =
     Some (NewQuantity (24 * GiB)) \<and>
   map_option fst (issued (reconcilePVC (withReference (10 * GiB) (cluster [] (Inl (Err ''unused''))))
     (metricsOf (9 * GiB) (10 * GiB))
     (claim (Some ''standard'') (20 * GiB) [(''threshold'', ''80%''), (''increase'', ''20%'')]))) =
     Some (NewQuantity (22 * GiB)) \<and>
   reconcilePVC (withReference (20 * GiB) (cluster [] (Inl (Err ''unused''))))
     (metricsOf (9 * GiB) (10 * GiB))
     (claim (Some ''standard'') (20 * GiB) [(''threshold'', ''80%''), (''increase'', ''20%'')]) =
     Skipped BelowThreshold"
  by (simp add: withReference_def run_defs newStorageBytes_24GiB newStorageBytes_22GiB FormatInt_10GiB)

section \<open>A failed metrics fetch\<close>

text \<open>
  Claim C8, as amended. When the claims were listed and the metrics fetch fails,
  \<open>reconcile\<close> visits no claim and returns \<open>nil\<close> to its caller: lines 26 and 27 log the
  error and do not return it.
\<close>

theorem metrics_failure_ends_cycle:
  assumes "getAnnotatedPVCs a = Inr pvcl" and "FetchPVCsMetrics a = Inl err"
  shows "reconcile a = (ReturnNil, [])"
  using assms by (simp add: reconcile_def)

text \<open>A cluster with one claim whose metrics fetch fails.\<close>

theorem metrics_failure_ends_cycle_witness:
  "getAnnotatedPVCs (cluster [claim (Some ''standard'') (10 * GiB) []] (Inl (Err ''metrics unavailable''))) =
     Inr [claim (Some ''standard'') (10 * GiB) []] \<and>
   reconcile (cluster [claim (Some ''standard'') (10 * GiB) []] (Inl (Err ''metrics unavailable''))) =
     (ReturnNil, [])"
proof -
  let ?a = "cluster [claim (Some ''standard'') (10 * GiB) []] (Inl (Err ''metrics unavailable''))"
  have l: "getAnnotatedPVCs ?a = Inr [claim (Some ''standard'') (10 * GiB) []]"
    by (simp add: cluster_def)
  have f: "FetchPVCsMetrics ?a = Inl (Err ''metrics unavailable'')"
    by (simp add: cluster_def)
  from metrics_failure_ends_cycle [OF l f] l show ?thesis
    by (rule conjI [rotated])
qed

text \<open>In that cluster the fetch fails and the caller of \<open>reconcile\<close> receives \<open>nil\<close>.\<close>

theorem metrics_failure_counterexample:
  "FetchPVCsMetrics (cluster [claim (Some ''standard'') (10 * GiB) []] (Inl (Err ''metrics unavailable''))) =
     Inl (Err ''metrics unavailable'') \<and>
   fst (reconcile (cluster [claim (Some ''standard'') (10 * GiB) []] (Inl (Err ''metrics unavailable'')))) =
     ReturnNil"
  by (simp add: reconcile_def cluster_def)

section \<open>A claim without a storage class name\<close>

text \<open>
  Claim C9 says that no single claim makes \<open>reconcile\<close> fault. A claim whose
  \<open>Spec.StorageClassName\<close> is \<open>nil\<close> does: line 36 dereferences the pointer, the call
  panics, and the claim listed after it is not visited.
\<close>

theorem nil_storage_class_name_panics:
  "reconcile (cluster [claim None (10 * GiB) [], claim (Some ''standard'') (10 * GiB) []]
     (Inr (metricsOf (9 * GiB) (10 * GiB)))) =
   (NoReturn, [Panicked NilPointerDereference])"
  by (simp add: reconcile_def reconcilePVC_def cluster_def claim_def)

end
